theory Spec2Isabelle
  imports Complex_Main "HOL-Library.Sublist"
begin

text \<open>
  The authenticated HTTP client of the dashboard (\<open>lib/axiosInstance\<close>), the session
  resolver (\<open>hooks/useAuth\<close>), the submit handler of the login page and the route guard
  (\<open>middleware\<close>), as functions on an explicit world.

  What the libraries do is taken as follows. The HTTP library fulfils a call whose
  response has a 2xx status and rejects every other one with an error that carries the
  request configuration and, unless the network failed, the response; a property added
  to a configuration (the \<open>_retry\<close> marker) is still there when that configuration is
  dispatched again. The cookie library writes and reads the cookie jar of the browser,
  and only there; a cookie written with max-age 0 is deleted. The body of the session
  response is an object with a status; its data envelope may be missing.
\<close>

section \<open>JavaScript values and string operations used by the sources\<close>

text \<open>
  Strings are byte lists. A value of type \<open>string | undefined\<close> is a \<open>string option\<close>
  with \<open>None\<close> for \<open>undefined\<close>.
\<close>

definition truthy :: "string option \<Rightarrow> bool" where
  \<comment> \<open>\<open>!!v\<close> for \<open>v : string | undefined\<close>: the empty string and \<open>undefined\<close> are falsy\<close>
  "truthy v = (case v of None \<Rightarrow> False | Some s \<Rightarrow> s \<noteq> [])"

definition template :: "string option \<Rightarrow> string" where
  \<comment> \<open>\<open>`${v}`\<close>: string conversion inside a template literal\<close>
  "template v = (case v of None \<Rightarrow> ''undefined'' | Some s \<Rightarrow> s)"

definition or_else :: "string option \<Rightarrow> string \<Rightarrow> string" where
  \<comment> \<open>\<open>v || d\<close> for \<open>v : string | undefined\<close>\<close>
  "or_else v d = (case v of None \<Rightarrow> d | Some s \<Rightarrow> if s = [] then d else s)"

definition startsWith :: "string \<Rightarrow> string \<Rightarrow> bool" where
  \<comment> \<open>\<open>s.startsWith(p)\<close>\<close>
  "startsWith s p = prefix p s"

fun includes_str :: "string \<Rightarrow> string \<Rightarrow> bool" where
  \<comment> \<open>\<open>s.includes(p)\<close>: \<open>p\<close> occurs in \<open>s\<close> as a contiguous substring\<close>
  "includes_str [] p = (p = [])"
| "includes_str (c # cs) p = (prefix p (c # cs) \<or> includes_str cs p)"

fun replace_str :: "string \<Rightarrow> string \<Rightarrow> string \<Rightarrow> string" where
  \<comment> \<open>\<open>s.replace(p, r)\<close> with a string pattern: only the first occurrence is replaced\<close>
  "replace_str [] p r = (if p = [] then r else [])"
| "replace_str (c # cs) p r =
     (if prefix p (c # cs) then r @ drop (length p) (c # cs) else c # replace_str cs p r)"

section \<open>Requests, responses and errors of the HTTP library\<close>

datatype field = FString string | FBool bool | FUndefined

record request_config =
  url :: string
  http_method :: string
  baseURL :: "string option"
  headers :: "string \<rightharpoonup> string"
  body :: "(string \<times> field) list"
  retry :: bool  \<comment> \<open>the \<open>_retry\<close> marker; absent on a fresh request, hence \<open>False\<close>\<close>

record error_response =
  status :: nat
  message :: "string option"  \<comment> \<open>\<open>response.data?.message\<close>\<close>

datatype js_error =
    AxiosError request_config "error_response option"  \<comment> \<open>\<open>error.config\<close>, \<open>error.response\<close>\<close>
  | TypeError string
  | ReferenceError string
  | OtherError string

text \<open>
  What the network gives back for one call: a response the library accepts (status in
  the 2xx range) with its typed body, a response it turns into an error, or nothing
  (a network failure: the error has no \<open>response\<close>).
\<close>

datatype 'd reply = Reply_OK nat 'd | Reply_Error error_response | No_Reply

datatype 'd settled = Resolved nat 'd | Rejected js_error

definition settle :: "request_config \<Rightarrow> 'd reply \<Rightarrow> 'd settled" where
  "settle config r =
     (case r of
        Reply_OK s d \<Rightarrow> Resolved s d
      | Reply_Error er \<Rightarrow> Rejected (AxiosError config (Some er))
      | No_Reply \<Rightarrow> Rejected (AxiosError config None))"

text \<open>
  The body of the authentication endpoints' envelope, \<open>response.data.data\<close>, is
  \<open>{accessToken, refreshToken?}\<close>; the envelope may come without it (\<open>None\<close>), and then
  reading a property of it throws a TypeError.
\<close>

record token_payload =
  accessToken :: "string option"
  refreshToken :: "string option"

section \<open>The credential store and the browser\<close>

record cookie =
  cookie_value :: string
  maxAge :: rat
  path :: string
  secure :: "bool option"
  sameSite :: "string option"

datatype event =
    Dispatch request_config      \<comment> \<open>a request sent by the intercepted instance\<close>
  | Bare_Request request_config  \<comment> \<open>a request sent by the bare library client\<close>
  | Set_Cookie string cookie
  | Navigate string              \<comment> \<open>\<open>window.location.href = ...\<close>\<close>
  | Console_Error string

text \<open>
  The world a handler runs in: the cookie jar of the browser (the last cookie written
  under each name; without a window nothing reads or writes it),
  the browser window (\<open>None\<close> when \<open>typeof window === 'undefined'\<close>, otherwise
  \<open>window.location.pathname\<close>), the number of network calls made so far, and the effects
  performed so far, in order.
\<close>

record world =
  cookies :: "string \<rightharpoonup> cookie"
  window :: "string option"
  clock :: nat
  trace :: "event list"

text \<open>
  The environment: the build mode, the configured base URL, and the backend. The backend's answer
  to a call may depend on the call's position in time (the clock) and on the request.
\<close>

record 'd env =
  production :: bool
  NEXT_PUBLIC_API_URL :: "string option"
  backend :: "nat \<Rightarrow> request_config \<Rightarrow> 'd reply"
  auth_backend :: "nat \<Rightarrow> request_config \<Rightarrow> token_payload option reply"

definition BASE_URL :: "'d env \<Rightarrow> string" where
  \<comment> \<open>\<open>process.env.NEXT_PUBLIC_API_URL || 'http://localhost:2775/api/v1'\<close>\<close>
  "BASE_URL env = or_else (NEXT_PUBLIC_API_URL env) ''http://localhost:2775/api/v1''"

text \<open>
  The sources call the cookie library with no request and no response object. Called
  so, it works on the cookie jar of the browser, and without a window it does nothing:
  \<open>setCookie\<close> writes nothing and \<open>getCookie\<close> returns \<open>undefined\<close>. The max-age is
  written as a whole number of seconds, rounded down, and a cookie whose max-age is not
  at least one second is dropped by the browser at once.
\<close>

definition written :: "cookie \<Rightarrow> cookie" where
  \<comment> \<open>the cookie as serialised: \<open>Max-Age = Math.floor(maxAge)\<close>\<close>
  "written c = c\<lparr>maxAge := of_int \<lfloor>maxAge c\<rfloor>\<rparr>"

definition setCookie :: "string \<Rightarrow> cookie \<Rightarrow> world \<Rightarrow> world" where
  "setCookie name c w =
     (case window w of
        None \<Rightarrow> w
      | Some p \<Rightarrow>
          w\<lparr>cookies := (cookies w)(name \<mapsto> written c),
            trace := trace w @ [Set_Cookie name (written c)]\<rparr>)"

definition getCookie :: "string \<Rightarrow> world \<Rightarrow> string option" where
  "getCookie name w =
     (case window w of
        None \<Rightarrow> None
      | Some p \<Rightarrow>
          (case cookies w name of
             None \<Rightarrow> None
           | Some c \<Rightarrow> if 1 \<le> \<lfloor>maxAge c\<rfloor> then Some (cookie_value c) else None))"

definition navigate :: "string \<Rightarrow> world \<Rightarrow> world" where
  "navigate href w = w\<lparr>trace := trace w @ [Navigate href]\<rparr>"

definition console_error :: "string \<Rightarrow> world \<Rightarrow> world" where
  "console_error msg w = w\<lparr>trace := trace w @ [Console_Error msg]\<rparr>"

definition clear_auth_cookies :: "world \<Rightarrow> world" where
  \<comment> \<open>\<open>['accessToken', 'refreshToken'].forEach(name => setCookie(name, '', {maxAge: 0, path: '/'}))\<close>\<close>
  "clear_auth_cookies w =
     foldl (\<lambda>w' cookieName.
              setCookie cookieName
                \<lparr>cookie_value = [], maxAge = 0, path = ''/'', secure = None, sameSite = None\<rparr> w')
           w [''accessToken'', ''refreshToken'']"

section \<open>The HTTP client: axiosInstance and its interceptors\<close>

definition instance_config ::
  "'d env \<Rightarrow> string \<Rightarrow> string \<Rightarrow> (string \<times> field) list \<Rightarrow> request_config" where
  \<comment> \<open>a call on the instance made by \<open>axios.create\<close>: base URL and JSON content type\<close>
  "instance_config env u m b =
     \<lparr>url = u, http_method = m, baseURL = Some (BASE_URL env),
      headers = [''Content-Type'' \<mapsto> ''application/json''], body = b, retry = False\<rparr>"

definition request_interceptor :: "world \<Rightarrow> request_config \<Rightarrow> request_config" where
  "request_interceptor w config =
     (let token = getCookie ''accessToken'' w
      in if truthy token
         then config\<lparr>headers := (headers config)(''Authorization'' \<mapsto> ''Bearer '' @ template token)\<rparr>
         else config)"

definition bare_config :: "string \<Rightarrow> (string \<times> field) list \<Rightarrow> request_config" where
  \<comment> \<open>the request of \<open>axios.post(url, data)\<close> on the bare library client\<close>
  "bare_config u b =
     \<lparr>url = u, http_method = ''post'', baseURL = None, headers = Map.empty, body = b,
      retry = False\<rparr>"

definition axios_post ::
  "'d env \<Rightarrow> world \<Rightarrow> string \<Rightarrow> (string \<times> field) list \<Rightarrow> world \<times> token_payload option settled" where
  \<comment> \<open>\<open>axios.post(url, data)\<close>: no interceptor of the instance runs\<close>
  "axios_post env w u b =
     (w\<lparr>clock := Suc (clock w), trace := trace w @ [Bare_Request (bare_config u b)]\<rparr>,
      settle (bare_config u b) (auth_backend env (clock w) (bare_config u b)))"

definition refresh_body :: "world \<Rightarrow> (string \<times> field) list" where
  \<comment> \<open>\<open>{ refreshToken }\<close> with \<open>refreshToken = getCookie('refreshToken')\<close>\<close>
  "refresh_body w =
     [(''refreshToken'',
       case getCookie ''refreshToken'' w of None \<Rightarrow> FUndefined | Some t \<Rightarrow> FString t)]"

definition refresh_access_token :: "'d env \<Rightarrow> world \<Rightarrow> world \<times> (js_error + string option)" where
  \<comment> \<open>the first three statements of the handler's try block, up to the destructuring\<close>
  "refresh_access_token env w =
     (case axios_post env w (BASE_URL env @ ''/auth/refresh-token'') (refresh_body w) of
        (w1, Rejected e) \<Rightarrow> (w1, Inl e)
      | (w1, Resolved s None) \<Rightarrow>
          (w1, Inl (TypeError ''Cannot destructure property accessToken of undefined''))
      | (w1, Resolved s (Some p)) \<Rightarrow> (w1, Inr (accessToken p)))"

definition is_unauthorized :: "error_response option \<Rightarrow> bool" where
  \<comment> \<open>\<open>error.response?.status === 401\<close>\<close>
  "is_unauthorized r = (case r of None \<Rightarrow> False | Some er \<Rightarrow> status er = 401)"

text \<open>
  The handler re-enters the instance only with the marker set, and the instance hands
  the handler an error that carries the configuration it sent: the number of markers
  still unset bounds the depth of the recursion.
\<close>

definition retry_weight :: "request_config \<Rightarrow> nat" where
  "retry_weight config = (if retry config then 0 else 1)"

fun error_weight :: "js_error \<Rightarrow> nat" where
  "error_weight (AxiosError config r) = retry_weight config"
| "error_weight e = 0"

function axiosInstance :: "'d env \<Rightarrow> world \<Rightarrow> request_config \<Rightarrow> world \<times> 'd settled"
  and response_rejected :: "'d env \<Rightarrow> world \<Rightarrow> js_error \<Rightarrow> world \<times> 'd settled"
where
  "axiosInstance env w config =
     (let config' = request_interceptor w config;
          w1 = w\<lparr>clock := Suc (clock w), trace := trace w @ [Dispatch config']\<rparr>
      in case settle config' (backend env (clock w) config') of
           Resolved s d \<Rightarrow> (w1, Resolved s d)
         | Rejected e \<Rightarrow> response_rejected env w1 e)"
| "response_rejected env w (AxiosError originalRequest r) =
     (if is_unauthorized r \<and> \<not> retry originalRequest then
        (let originalRequest = originalRequest\<lparr>retry := True\<rparr>
         in case refresh_access_token env w of
              (w1, Inr token) \<Rightarrow>
                axiosInstance env
                  (setCookie ''accessToken''
                     \<lparr>cookie_value = template token, maxAge = 24 * 60 * 60, path = ''/'',
                      secure = Some (production env), sameSite = Some ''strict''\<rparr> w1)
                  (originalRequest
                     \<lparr>headers := (headers originalRequest)
                                   (''Authorization'' \<mapsto> ''Bearer '' @ template token)\<rparr>)
            | (w1, Inl refreshError) \<Rightarrow>
                (let w2 = clear_auth_cookies w1
                 in (case window w2 of
                       None \<Rightarrow> w2
                     | Some pathname \<Rightarrow>
                         if \<not> includes_str pathname ''/login'' then navigate ''/login'' w2
                         else w2,
                     Rejected refreshError)))
      else (w, Rejected (AxiosError originalRequest r)))"
| "response_rejected env w (TypeError m) = (w, Rejected (TypeError m))"
| "response_rejected env w (ReferenceError m) = (w, Rejected (ReferenceError m))"
| "response_rejected env w (OtherError m) = (w, Rejected (OtherError m))"
  by pat_completeness auto
termination
  by (relation "measure (\<lambda>x. case x of
                    Inl (env, w, config) \<Rightarrow> 2 * retry_weight config + 1
                  | Inr (env, w, e) \<Rightarrow> 2 * error_weight e)")
     (auto simp: retry_weight_def settle_def request_interceptor_def Let_def
           split: reply.splits if_splits)


section \<open>The session resolver: the useAuth hook\<close>

record auth_user =
  user_id :: int
  user_name :: string
  user_email :: string
  imageUrl :: "string option"
  role :: string
  phoneNumber :: "string option"
  enabled :: bool
  authorities :: "string list"

record session_data =
  data_user :: "auth_user option"  \<comment> \<open>tested for truthiness by the code, so possibly null\<close>
  data_token :: string
  data_expiresIn :: rat

record session_response =
  session_status :: string
  session_message :: string
  session_data :: "session_data option"  \<comment> \<open>\<open>None\<close>: \<open>data\<close> is missing or null\<close>

record auth_state =
  user :: "auth_user option"
  loading :: bool
  error :: "string option"

definition initial_auth_state :: auth_state where
  \<comment> \<open>\<open>useState(null)\<close>, \<open>useState(true)\<close>, \<open>useState(null)\<close>\<close>
  "initial_auth_state = \<lparr>user = None, loading = True, error = None\<rparr>"

definition session_request :: "'d env \<Rightarrow> request_config" where
  "session_request env = instance_config env ''/auth/session'' ''get'' []"

definition fetchSession_try ::
  "'d env \<Rightarrow> world \<times> auth_state \<Rightarrow> session_response \<Rightarrow> js_error + world \<times> auth_state" where
  \<comment> \<open>the try block after the awaited response; \<open>Inl e\<close>: it threw \<open>e\<close>. The status is
      compared first: \<open>data.data.user\<close> is read, and throws when \<open>data.data\<close> is missing,
      only when the status is the success sentinel\<close>
  "fetchSession_try env ws d =
     (case ws of (w, s) \<Rightarrow>
        if session_status d = ''SUCCESS'' then
          (case session_data d of
             None \<Rightarrow> Inl (TypeError ''Cannot read properties of undefined (reading user)'')
           | Some sd \<Rightarrow>
               (case data_user sd of
                  Some u \<Rightarrow>
                    Inr (setCookie ''accessToken''
                           \<lparr>cookie_value = data_token sd, maxAge = data_expiresIn sd / 1000,
                            path = ''/'', secure = Some (production env),
                            sameSite = Some ''strict''\<rparr> w,
                         s\<lparr>user := Some u, error := None\<rparr>)
                | None \<Rightarrow> Inr (w, s\<lparr>error := None\<rparr>)))
        else Inr (w, s\<lparr>error := None\<rparr>))"

definition fetchSession_catch :: "world \<times> auth_state \<Rightarrow> js_error \<Rightarrow> world \<times> auth_state" where
  "fetchSession_catch ws err =
     (case ws of (w, s) \<Rightarrow>
        (case err of
           AxiosError config r \<Rightarrow>
             (w, s\<lparr>error := Some (or_else (case r of None \<Rightarrow> None | Some er \<Rightarrow> message er)
                                          ''Failed to fetch session''),
                    user := None\<rparr>)
         | _ \<Rightarrow> (w, s\<lparr>error := Some ''An unexpected error occurred''\<rparr>)))"

definition fetchSession_settled ::
  "'d env \<Rightarrow> world \<times> auth_state \<Rightarrow> session_response settled \<Rightarrow> world \<times> auth_state" where
  \<comment> \<open>try, catch and finally, once the request has settled. A throw inside the try
      block comes before any of its state updates, so the catch starts from \<open>ws\<close>\<close>
  "fetchSession_settled env ws response =
     (case (case response of
              Resolved st d \<Rightarrow>
                (case fetchSession_try env ws d of
                   Inr ws' \<Rightarrow> ws'
                 | Inl err \<Rightarrow> fetchSession_catch ws err)
            | Rejected err \<Rightarrow> fetchSession_catch ws err) of
        (w', s') \<Rightarrow> (w', s'\<lparr>loading := False\<rparr>))"

definition fetchSession :: "session_response env \<Rightarrow> world \<times> auth_state \<Rightarrow> world \<times> auth_state" where
  "fetchSession env ws =
     (case ws of (w, s) \<Rightarrow>
        (case axiosInstance env w (session_request env) of
           (w1, response) \<Rightarrow> fetchSession_settled env (w1, s) response))"

definition logout_request :: "'d env \<Rightarrow> request_config" where
  "logout_request env = instance_config env ''/auth/logout'' ''post'' []"

definition logout :: "'d env \<Rightarrow> world \<times> auth_state \<Rightarrow> (world \<times> auth_state) \<times> (js_error + unit)" where
  \<comment> \<open>the second component is what the promise of \<open>logout()\<close> settles to\<close>
  "logout env ws =
     (case ws of (w, s) \<Rightarrow>
        (case axiosInstance env w (logout_request env) of
           (w1, response) \<Rightarrow>
             (let w2 = (case response of
                          Resolved st d \<Rightarrow> w1
                        | Rejected err \<Rightarrow> console_error ''Logout API call failed:'' w1);
                  w3 = clear_auth_cookies w2;
                  s' = s\<lparr>user := None\<rparr>
              in case window w3 of
                   None \<Rightarrow> ((w3, s'), Inl (ReferenceError ''window is not defined''))
                 | Some pathname \<Rightarrow> ((navigate ''/login'' w3, s'), Inr ()))))"

definition isAuthenticated :: "world \<Rightarrow> auth_state \<Rightarrow> bool" where
  \<comment> \<open>\<open>!!user && !!getCookie('accessToken')\<close>\<close>
  "isAuthenticated w s = (user s \<noteq> None \<and> truthy (getCookie ''accessToken'' w))"

definition hasRole :: "auth_state \<Rightarrow> string \<Rightarrow> bool" where
  "hasRole s r =
     (case user s of None \<Rightarrow> False | Some u \<Rightarrow> list_ex (\<lambda>authority. authority = r) (authorities u))"

section \<open>The login page: onSubmit\<close>

record toast =
  title :: string
  description :: string
  variant :: "string option"
  duration :: nat

record login_values =
  email :: string
  password :: string

record login_page =
  rememberMe :: bool
  isSubmitting :: bool
  isRedirecting :: bool
  toasts :: "toast list"

definition login_request :: "'d env \<Rightarrow> login_values \<Rightarrow> login_page \<Rightarrow> request_config" where
  "login_request env values p =
     instance_config env ''/auth/authenticate'' ''post''
       [(''email'', FString (email values)), (''password'', FString (password values)),
        (''rememberMe'', FBool (rememberMe p))]"

definition login_cookie :: "'d env \<Rightarrow> login_page \<Rightarrow> string \<Rightarrow> cookie" where
  "login_cookie env p v =
     \<lparr>cookie_value = v,
      maxAge = (if rememberMe p then 30 * 24 * 60 * 60 else 24 * 60 * 60), path = ''/'',
      secure = Some (production env), sameSite = Some ''strict''\<rparr>"

definition onSubmit_try ::
  "token_payload option env \<Rightarrow> world \<times> login_page \<Rightarrow> token_payload option settled
     \<Rightarrow> (world \<times> login_page) \<times> js_error option" where
  \<comment> \<open>the try block after the awaited response; \<open>Some e\<close>: it threw \<open>e\<close> in that state\<close>
  "onSubmit_try env wp response =
     (case wp of (w, p) \<Rightarrow>
        (case response of
           Rejected e \<Rightarrow> ((w, p), Some e)
         | Resolved st None \<Rightarrow>
             ((w, p), Some (TypeError ''Cannot read properties of undefined''))
         | Resolved st (Some d) \<Rightarrow>
             if truthy (accessToken d) then
               (let w1 = setCookie ''accessToken'' (login_cookie env p (template (accessToken d))) w;
                    w2 = (if truthy (refreshToken d)
                          then setCookie ''refreshToken''
                                 (login_cookie env p (template (refreshToken d))) w1
                          else w1);
                    p1 = p\<lparr>toasts := toasts p @
                            [\<lparr>title = ''Success! Welcome back! '' @
                                       [CHR 0xF0, CHR 0x9F, CHR 0x8E, CHR 0x89],
                              description = ''Preparing your dashboard...'',
                              variant = None, duration = 3000\<rparr>]\<rparr>
                in case window w2 of
                     None \<Rightarrow> ((w2, p1), Some (ReferenceError ''window is not defined''))
                   | Some pathname \<Rightarrow> ((w2, p1\<lparr>isRedirecting := True\<rparr>), None))
             else ((w, p), None)))"

definition onSubmit_catch :: "login_page \<Rightarrow> js_error \<Rightarrow> login_page" where
  "onSubmit_catch p e =
     (let errorMessage =
            or_else (case e of
                       AxiosError config (Some er) \<Rightarrow> message er
                     | _ \<Rightarrow> None)
              ''An unexpected error occurred''
      in p\<lparr>toasts := toasts p @
              [\<lparr>title = ''Login Failed'', description = errorMessage,
                variant = Some ''destructive'', duration = 5000\<rparr>],
           isSubmitting := False\<rparr>)"

definition onSubmit ::
  "token_payload option env \<Rightarrow> login_values \<Rightarrow> world \<times> login_page \<Rightarrow> world \<times> login_page" where
  "onSubmit env values wp =
     (case wp of (w, p) \<Rightarrow>
        (case axiosInstance env w (login_request env values p) of
           (w1, response) \<Rightarrow>
             (case onSubmit_try env (w1, p\<lparr>isSubmitting := True\<rparr>) response of
                ((w2, p2), None) \<Rightarrow> (w2, p2)
              | ((w2, p2), Some e) \<Rightarrow> (w2, onSubmit_catch p2 e))))"

section \<open>The route guard: the edge middleware\<close>

text \<open>
  A URL object: origin, path and the list of query parameters. The serialisation of the
  query is the one of \<open>URLSearchParams\<close> (application/x-www-form-urlencoded): letters,
  digits and \<open>*-._\<close> stay, a space becomes \<open>+\<close>, every other byte is percent-encoded.
\<close>

record URL =
  origin :: string
  pathname :: string
  searchParams :: "(string \<times> string) list"

definition new_URL :: "string \<Rightarrow> URL \<Rightarrow> URL" where
  \<comment> \<open>\<open>new URL(p, base)\<close> for an absolute path \<open>p\<close>: the origin of the base, no query\<close>
  "new_URL p base = \<lparr>origin = origin base, pathname = p, searchParams = []\<rparr>"

fun searchParams_set :: "(string \<times> string) list \<Rightarrow> string \<Rightarrow> string \<Rightarrow> (string \<times> string) list" where
  \<comment> \<open>\<open>searchParams.set(k, v)\<close>: the first pair named \<open>k\<close> takes the value, later ones go\<close>
  "searchParams_set [] k v = [(k, v)]"
| "searchParams_set ((k', v') # ps) k v =
     (if k' = k then (k, v) # filter (\<lambda>q. fst q \<noteq> k) ps
      else (k', v') # searchParams_set ps k v)"

definition hex_digit :: "nat \<Rightarrow> char" where
  "hex_digit n = ''0123456789ABCDEF'' ! (n mod 16)"

definition urlencode_byte :: "char \<Rightarrow> string" where
  "urlencode_byte c =
     (let n = (of_char c :: nat)
      in if (48 \<le> n \<and> n \<le> 57) \<or> (65 \<le> n \<and> n \<le> 90) \<or> (97 \<le> n \<and> n \<le> 122)
            \<or> c \<in> set ''*-._''
         then [c]
         else if c = CHR '' '' then ''+''
         else [CHR ''%'', hex_digit (n div 16), hex_digit n])"

definition urlencode :: "string \<Rightarrow> string" where
  "urlencode s = concat (map urlencode_byte s)"

fun serialize_params :: "(string \<times> string) list \<Rightarrow> string" where
  "serialize_params [] = []"
| "serialize_params [(k, v)] = urlencode k @ ''='' @ urlencode v"
| "serialize_params ((k, v) # ps) = urlencode k @ ''='' @ urlencode v @ ''&'' @ serialize_params ps"

definition path_and_query :: "URL \<Rightarrow> string" where
  \<comment> \<open>\<open>u.pathname + u.search\<close>\<close>
  "path_and_query u =
     pathname u @ (if searchParams u = [] then [] else ''?'' @ serialize_params (searchParams u))"

datatype next_response = Redirect URL | Next

text \<open>
  The incoming request. Reading \<open>nextUrl\<close> and \<open>cookies\<close> goes through accessors of
  the framework; a failure of one of them is an exception inside the try block.
\<close>

record next_request =
  request_url :: URL
  nextUrl :: "js_error + URL"
  request_cookies :: "js_error + (string \<rightharpoonup> string)"

definition protectedRoutes :: "string list" where
  "protectedRoutes = [''/dashboard'', ''/dashboard/:path*'']"

definition authRoutes :: "string list" where
  "authRoutes = [''/login'', ''/register'']"

definition matchesProtectedRoute :: "string \<Rightarrow> bool" where
  "matchesProtectedRoute currentPath =
     list_ex (\<lambda>pattern.
                if includes_str pattern '':path*''
                then startsWith currentPath (replace_str pattern '':path*'' [])
                else pattern = currentPath)
             protectedRoutes"

definition middleware_try :: "next_request \<Rightarrow> js_error + next_response" where
  "middleware_try request =
     (case nextUrl request of
        Inl e \<Rightarrow> Inl e
      | Inr u \<Rightarrow>
          (case request_cookies request of
             Inl e \<Rightarrow> Inl e
           | Inr jar \<Rightarrow>
               (let currentPath = pathname u;
                    authenticated = truthy (jar ''accessToken'');
                    isProtectedRoute = matchesProtectedRoute currentPath;
                    isAuthRoute = (currentPath \<in> set authRoutes);
                    dashboardUrl = new_URL ''/dashboard'' (request_url request);
                    loginUrl = new_URL ''/login'' (request_url request)
                in if authenticated then
                     (if isAuthRoute then Inr (Redirect dashboardUrl) else Inr Next)
                   else
                     (if isAuthRoute then Inr Next
                      else if isProtectedRoute then
                        Inr (Redirect
                               (loginUrl\<lparr>searchParams :=
                                   searchParams_set (searchParams loginUrl) ''callbackUrl'' currentPath\<rparr>))
                      else Inr Next))))"

definition middleware :: "next_request \<Rightarrow> string list \<times> next_response" where
  \<comment> \<open>what is written to the console, and the response\<close>
  "middleware request =
     (case middleware_try request of
        Inr response \<Rightarrow> ([], response)
      | Inl e \<Rightarrow> ([''Middleware error:''], Redirect (new_URL ''/login'' (request_url request))))"

section \<open>Observations on worlds\<close>

fun is_refresh_call :: "event \<Rightarrow> bool" where
  \<comment> \<open>the only request the sources send through the bare client is the refresh call\<close>
  "is_refresh_call (Bare_Request c) = True"
| "is_refresh_call e = False"

fun is_dispatch :: "event \<Rightarrow> bool" where
  "is_dispatch (Dispatch c) = True"
| "is_dispatch e = False"

definition refresh_calls :: "world \<Rightarrow> nat" where
  "refresh_calls w = length (filter is_refresh_call (trace w))"

definition dispatches :: "world \<Rightarrow> nat" where
  "dispatches w = length (filter is_dispatch (trace w))"

definition navigations :: "world \<Rightarrow> string list" where
  "navigations w = concat (map (\<lambda>e. case e of Navigate href \<Rightarrow> [href] | _ \<Rightarrow> []) (trace w))"

definition refresh_request :: "'d env \<Rightarrow> world \<Rightarrow> request_config" where
  "refresh_request env w = bare_config (BASE_URL env @ ''/auth/refresh-token'') (refresh_body w)"

definition refreshed_cookie :: "'d env \<Rightarrow> string option \<Rightarrow> cookie" where
  "refreshed_cookie env token =
     \<lparr>cookie_value = template token, maxAge = 86400, path = ''/'',
      secure = Some (production env), sameSite = Some ''strict''\<rparr>"

definition cleared_cookie :: cookie where
  "cleared_cookie =
     \<lparr>cookie_value = [], maxAge = 0, path = ''/'', secure = None, sameSite = None\<rparr>"

definition retried_request :: "request_config \<Rightarrow> string option \<Rightarrow> request_config" where
  "retried_request originalRequest token =
     originalRequest
       \<lparr>retry := True,
        headers := (headers originalRequest)(''Authorization'' \<mapsto> ''Bearer '' @ template token)\<rparr>"

section \<open>Example inputs\<close>

text \<open>
  A backend that accepts only the bearer token \<open>T2\<close>, a refresh endpoint that issues
  \<open>T2\<close> and one that answers 401, a browser holding the expired token \<open>T1\<close>, and a
  world without a window.
\<close>

definition strict_backend :: "nat \<Rightarrow> request_config \<Rightarrow> string reply" where
  "strict_backend n c =
     (if headers c ''Authorization'' = Some ''Bearer T2'' then Reply_OK 200 ''sales''
      else Reply_Error \<lparr>status = 401, message = Some ''Token expired''\<rparr>)"

definition issuing_auth :: "nat \<Rightarrow> request_config \<Rightarrow> token_payload option reply" where
  "issuing_auth n c = Reply_OK 200 (Some \<lparr>accessToken = Some ''T2'', refreshToken = None\<rparr>)"

definition refusing_auth :: "nat \<Rightarrow> request_config \<Rightarrow> token_payload option reply" where
  "refusing_auth n c = Reply_Error \<lparr>status = 401, message = Some ''Refresh token expired''\<rparr>"

definition env_issuing :: "string env" where
  "env_issuing =
     \<lparr>production = False, NEXT_PUBLIC_API_URL = None,
      backend = strict_backend, auth_backend = issuing_auth\<rparr>"

definition env_refusing :: "string env" where
  "env_refusing =
     \<lparr>production = False, NEXT_PUBLIC_API_URL = None,
      backend = strict_backend, auth_backend = refusing_auth\<rparr>"

definition stored :: "string \<Rightarrow> cookie" where
  "stored v =
     \<lparr>cookie_value = v, maxAge = 86400, path = ''/'', secure = Some False,
      sameSite = Some ''strict''\<rparr>"

definition browser :: "string \<Rightarrow> world" where
  "browser p =
     \<lparr>cookies = [''accessToken'' \<mapsto> stored ''T1'', ''refreshToken'' \<mapsto> stored ''R1''],
      window = Some p, clock = 0, trace = []\<rparr>"

definition server_side :: world where
  \<comment> \<open>no window, and so no cookie jar to write to\<close>
  "server_side = \<lparr>cookies = Map.empty, window = None, clock = 0, trace = []\<rparr>"

definition sales_request :: request_config where
  "sales_request =
     \<lparr>url = ''/sales'', http_method = ''get'', baseURL = Some ''http://localhost:2775/api/v1'',
      headers = [''Content-Type'' \<mapsto> ''application/json'', ''Authorization'' \<mapsto> ''Bearer T1''],
      body = [], retry = False\<rparr>"

definition unauthorized :: error_response where
  "unauthorized = \<lparr>status = 401, message = Some ''Token expired''\<rparr>"

text \<open>
  For the session resolver: a signed-in user, a backend that is down, one that answers
  the session request with 401 while the refresh endpoint answers without a payload,
  one that answers 200 with a status that is not the success sentinel, one that answers
  200 with the success sentinel and no data envelope, and one that answers 200 with the
  success sentinel and a data envelope without a user.
\<close>

definition alice :: auth_user where
  "alice =
     \<lparr>user_id = 1, user_name = ''Alice'', user_email = ''alice@example.com'', imageUrl = None,
      role = ''ADMIN'', phoneNumber = None, enabled = True, authorities = [''ADMIN'']\<rparr>"

definition signed_in :: auth_state where
  "signed_in = \<lparr>user = Some alice, loading = False, error = None\<rparr>"

definition no_reply :: "nat \<Rightarrow> request_config \<Rightarrow> 'd reply" where
  "no_reply n c = No_Reply"

definition env_down :: "session_response env" where
  "env_down =
     \<lparr>production = False, NEXT_PUBLIC_API_URL = None,
      backend = no_reply, auth_backend = no_reply\<rparr>"

definition session_expired :: "nat \<Rightarrow> request_config \<Rightarrow> session_response reply" where
  "session_expired n c = Reply_Error \<lparr>status = 401, message = Some ''Token expired''\<rparr>"

definition empty_auth :: "nat \<Rightarrow> request_config \<Rightarrow> token_payload option reply" where
  "empty_auth n c = Reply_OK 200 None"

definition env_empty_refresh :: "session_response env" where
  "env_empty_refresh =
     \<lparr>production = False, NEXT_PUBLIC_API_URL = None,
      backend = session_expired, auth_backend = empty_auth\<rparr>"

definition no_session :: session_response where
  "no_session =
     \<lparr>session_status = ''ERROR'', session_message = ''No active session'',
      session_data = None\<rparr>"

definition success_without_data :: session_response where
  "success_without_data =
     \<lparr>session_status = ''SUCCESS'', session_message = ''OK'', session_data = None\<rparr>"

definition session_without_data :: "nat \<Rightarrow> request_config \<Rightarrow> session_response reply" where
  "session_without_data n c = Reply_OK 200 success_without_data"

definition env_without_data :: "session_response env" where
  "env_without_data =
     \<lparr>production = False, NEXT_PUBLIC_API_URL = None,
      backend = session_without_data, auth_backend = refusing_auth\<rparr>"

definition session_refused :: "nat \<Rightarrow> request_config \<Rightarrow> session_response reply" where
  "session_refused n c = Reply_OK 200 no_session"

definition env_no_session :: "session_response env" where
  "env_no_session =
     \<lparr>production = False, NEXT_PUBLIC_API_URL = None,
      backend = session_refused, auth_backend = refusing_auth\<rparr>"

definition success_without_user :: session_response where
  "success_without_user =
     \<lparr>session_status = ''SUCCESS'', session_message = ''OK'',
      session_data = Some \<lparr>data_user = None, data_token = ''T1'', data_expiresIn = 86400000\<rparr>\<rparr>"

definition session_without_user :: "nat \<Rightarrow> request_config \<Rightarrow> session_response reply" where
  "session_without_user n c = Reply_OK 200 success_without_user"

definition env_without_user :: "session_response env" where
  "env_without_user =
     \<lparr>production = False, NEXT_PUBLIC_API_URL = None,
      backend = session_without_user, auth_backend = refusing_auth\<rparr>"

text \<open>For the login page: a backend that accepts the credentials, and the form.\<close>

definition accepting :: "nat \<Rightarrow> request_config \<Rightarrow> token_payload option reply" where
  "accepting n c = Reply_OK 200 (Some \<lparr>accessToken = Some ''T1'', refreshToken = Some ''R1''\<rparr>)"

definition env_login :: "token_payload option env" where
  "env_login =
     \<lparr>production = False, NEXT_PUBLIC_API_URL = None,
      backend = accepting, auth_backend = refusing_auth\<rparr>"

definition login_window :: world where
  "login_window = \<lparr>cookies = Map.empty, window = Some ''/login'', clock = 0, trace = []\<rparr>"

definition credentials :: login_values where
  "credentials = \<lparr>email = ''alice@example.com'', password = ''secret''\<rparr>"

definition login_form :: "bool \<Rightarrow> login_page" where
  "login_form remember =
     \<lparr>rememberMe = remember, isSubmitting = False, isRedirecting = False, toasts = []\<rparr>"

text \<open>For the route guard: a request for a path, with or without the cookie.\<close>

definition page_url :: "string \<Rightarrow> URL" where
  "page_url p = \<lparr>origin = ''http://localhost:3000'', pathname = p, searchParams = []\<rparr>"

definition page_request :: "string \<Rightarrow> string option \<Rightarrow> next_request" where
  "page_request p c =
     \<lparr>request_url = page_url p, nextUrl = Inr (page_url p),
      request_cookies = Inr (case c of None \<Rightarrow> Map.empty | Some v \<Rightarrow> [''accessToken'' \<mapsto> v])\<rparr>"

definition broken_request :: next_request where
  "broken_request =
     \<lparr>request_url = page_url ''/dashboard'',
      nextUrl = Inl (TypeError ''Invalid URL''),
      request_cookies = Inr Map.empty\<rparr>"

section \<open>Properties of the HTTP client\<close>

text \<open>
  The recursive equations are applied by hand: the lemmas below say what a call of the
  handler does in each of its cases.
\<close>

declare axiosInstance.simps [simp del] response_rejected.simps [simp del]

lemma response_rejected_retried:
  "retry config \<Longrightarrow>
   response_rejected env w (AxiosError config r) = (w, Rejected (AxiosError config r))"
  by (simp add: response_rejected.simps)

lemma response_rejected_not_401:
  "\<not> is_unauthorized r \<Longrightarrow>
   response_rejected env w (AxiosError config r) = (w, Rejected (AxiosError config r))"
  by (simp add: response_rejected.simps)

lemma settle_cases:
  "(\<exists>s d. settle config r = Resolved s d) \<or> (\<exists>er. settle config r = Rejected (AxiosError config er))"
  by (cases r) (simp_all add: settle_def)

lemma request_interceptor_retry: "retry (request_interceptor w config) = retry config"
  by (simp add: request_interceptor_def Let_def)

lemma axiosInstance_retried:
  assumes "retry config"
  shows "axiosInstance env w config =
     (w\<lparr>clock := Suc (clock w), trace := trace w @ [Dispatch (request_interceptor w config)]\<rparr>,
      settle (request_interceptor w config) (backend env (clock w) (request_interceptor w config)))"
  using assms settle_cases [of "request_interceptor w config" "backend env (clock w) (request_interceptor w config)"]
  by (auto simp: axiosInstance.simps Let_def request_interceptor_retry response_rejected_retried)

lemma fst_refresh_access_token:
  "fst (refresh_access_token env w) =
     w\<lparr>clock := Suc (clock w), trace := trace w @ [Bare_Request (refresh_request env w)]\<rparr>"
  by (simp add: refresh_access_token_def axios_post_def refresh_request_def
           split: settled.splits option.splits)

lemma written_refreshed_cookie: "written (refreshed_cookie env token) = refreshed_cookie env token"
  by (simp add: written_def refreshed_cookie_def)

lemma written_cleared_cookie: "written cleared_cookie = cleared_cookie"
  by (simp add: written_def cleared_cookie_def)

lemma clear_auth_cookies_eq:
  "clear_auth_cookies w =
     (case window w of
        None \<Rightarrow> w
      | Some p \<Rightarrow>
          w\<lparr>cookies := (cookies w)(''accessToken'' \<mapsto> cleared_cookie,
                                    ''refreshToken'' \<mapsto> cleared_cookie),
            trace := trace w @ [Set_Cookie ''accessToken'' cleared_cookie,
                                Set_Cookie ''refreshToken'' cleared_cookie]\<rparr>)"
  using written_cleared_cookie
  by (simp add: clear_auth_cookies_def setCookie_def cleared_cookie_def split: option.splits)

lemma retry_retried_request: "retry (retried_request originalRequest token)"
  by (simp add: retried_request_def)

lemma request_interceptor_after_refresh:
  "request_interceptor (setCookie ''accessToken'' (refreshed_cookie env token) w)
      (retried_request originalRequest token)
     = retried_request originalRequest token"
  by (cases "window w")
     (simp_all add: request_interceptor_def getCookie_def setCookie_def written_refreshed_cookie
        Let_def truthy_def template_def retried_request_def,
      simp_all add: refreshed_cookie_def template_def)

lemma response_rejected_refreshed:
  assumes "is_unauthorized r" "\<not> retry originalRequest"
    and "snd (refresh_access_token env w) = Inr token"
  shows "response_rejected env w (AxiosError originalRequest r) =
     (w\<lparr>cookies := (if window w = None then cookies w
                     else (cookies w)(''accessToken'' \<mapsto> refreshed_cookie env token)),
        clock := clock w + 2,
        trace := trace w @ [Bare_Request (refresh_request env w)]
                 @ (if window w = None then []
                    else [Set_Cookie ''accessToken'' (refreshed_cookie env token)])
                 @ [Dispatch (retried_request originalRequest token)]\<rparr>,
      settle (retried_request originalRequest token)
        (backend env (Suc (clock w)) (retried_request originalRequest token)))"
proof -
  define w1 where "w1 = w\<lparr>clock := Suc (clock w), trace := trace w @ [Bare_Request (refresh_request env w)]\<rparr>"
  define w2 where "w2 = setCookie ''accessToken'' (refreshed_cookie env token) w1"
  have r: "refresh_access_token env w = (w1, Inr token)"
    using assms(3) fst_refresh_access_token [of env w]
    by (cases "refresh_access_token env w") (simp add: w1_def)
  have c: "(24 * 60 * 60 :: rat) = 86400" by simp
  have "response_rejected env w (AxiosError originalRequest r) =
          axiosInstance env w2 (retried_request originalRequest token)"
    using assms(1,2) r
    by (simp add: response_rejected.simps c w2_def refreshed_cookie_def retried_request_def Let_def)
  also have "\<dots> = (w2\<lparr>clock := Suc (clock w2),
                        trace := trace w2 @ [Dispatch (retried_request originalRequest token)]\<rparr>,
                    settle (retried_request originalRequest token)
                      (backend env (clock w2) (retried_request originalRequest token)))"
    by (simp add: axiosInstance_retried retry_retried_request w2_def
          request_interceptor_after_refresh)
  finally show ?thesis
    by (cases "window w")
       (simp_all add: w2_def w1_def setCookie_def written_refreshed_cookie)
qed

lemma response_rejected_refresh_failed:
  assumes "is_unauthorized r" "\<not> retry originalRequest"
    and "snd (refresh_access_token env w) = Inl refreshError"
  shows "response_rejected env w (AxiosError originalRequest r) =
     (w\<lparr>cookies := (if window w = None then cookies w
                     else (cookies w)(''accessToken'' \<mapsto> cleared_cookie,
                                      ''refreshToken'' \<mapsto> cleared_cookie)),
        clock := Suc (clock w),
        trace := trace w @ [Bare_Request (refresh_request env w)]
                 @ (case window w of
                      None \<Rightarrow> []
                    | Some p \<Rightarrow>
                        [Set_Cookie ''accessToken'' cleared_cookie,
                         Set_Cookie ''refreshToken'' cleared_cookie]
                        @ (if includes_str p ''/login'' then [] else [Navigate ''/login'']))\<rparr>,
      Rejected refreshError)"
proof -
  obtain w1 where w1: "refresh_access_token env w = (w1, Inl refreshError)"
    using assms(3) by (cases "refresh_access_token env w") simp
  have w1_eq: "w1 = w\<lparr>clock := Suc (clock w), trace := trace w @ [Bare_Request (refresh_request env w)]\<rparr>"
    using fst_refresh_access_token [of env w] w1 by simp
  show ?thesis
    using assms(1,2) w1
    by (cases "window w")
       (simp_all add: response_rejected.simps clear_auth_cookies_eq navigate_def w1_eq Let_def)
qed

subsection \<open>One refresh and at most one retry per unauthorized request\<close>

text \<open>
  Claim C1. A 401 response to a request that does not carry the retry marker makes the
  handler send exactly one refresh call and dispatch the original request at most once
  more. A 401 response to a request that carries the marker sends nothing: the world is
  unchanged and the very same error is rejected to the caller.
\<close>

theorem unauthorized_triggers_one_refresh:
  fixes env :: "'d env"
  assumes "is_unauthorized r"
  shows "(\<not> retry config \<longrightarrow>
            refresh_calls (fst (response_rejected env w (AxiosError config r))) = refresh_calls w + 1
          \<and> dispatches (fst (response_rejected env w (AxiosError config r))) \<le> dispatches w + 1)
       \<and> (retry config \<longrightarrow>
            response_rejected env w (AxiosError config r) = (w, Rejected (AxiosError config r)))"
proof (intro conjI impI)
  assume n: "\<not> retry config"
  show "refresh_calls (fst (response_rejected env w (AxiosError config r))) = refresh_calls w + 1"
  proof (cases "snd (refresh_access_token env w)")
    case (Inl refreshError)
    show ?thesis
      by (simp add: response_rejected_refresh_failed [OF assms n Inl] refresh_calls_def
            split: option.splits)
  next
    case (Inr token)
    show ?thesis
      by (simp add: response_rejected_refreshed [OF assms n Inr] refresh_calls_def)
  qed
  show "dispatches (fst (response_rejected env w (AxiosError config r))) \<le> dispatches w + 1"
  proof (cases "snd (refresh_access_token env w)")
    case (Inl refreshError)
    show ?thesis
      by (simp add: response_rejected_refresh_failed [OF assms n Inl] dispatches_def
            split: option.splits)
  next
    case (Inr token)
    show ?thesis
      by (simp add: response_rejected_refreshed [OF assms n Inr] dispatches_def)
  qed
next
  assume "retry config"
  then show "response_rejected env w (AxiosError config r) = (w, Rejected (AxiosError config r))"
    by (simp add: response_rejected.simps)
qed

theorem unauthorized_triggers_one_refresh_witness:
  "is_unauthorized (Some unauthorized) \<and> \<not> retry sales_request
   \<and> refresh_calls (fst (response_rejected env_issuing (browser ''/dashboard'')
                           (AxiosError sales_request (Some unauthorized)))) = 1
   \<and> dispatches (fst (response_rejected env_issuing (browser ''/dashboard'')
                           (AxiosError sales_request (Some unauthorized)))) \<le> 1
   \<and> retry (sales_request\<lparr>retry := True\<rparr>)
   \<and> response_rejected env_issuing (browser ''/dashboard'')
        (AxiosError (sales_request\<lparr>retry := True\<rparr>) (Some unauthorized))
      = (browser ''/dashboard'', Rejected (AxiosError (sales_request\<lparr>retry := True\<rparr>) (Some unauthorized)))"
  using unauthorized_triggers_one_refresh
          [of "Some unauthorized" sales_request env_issuing "browser ''/dashboard''"]
        unauthorized_triggers_one_refresh
          [of "Some unauthorized" "sales_request\<lparr>retry := True\<rparr>" env_issuing "browser ''/dashboard''"]
  by (simp add: is_unauthorized_def unauthorized_def sales_request_def refresh_calls_def
        dispatches_def browser_def)

lemma response_rejected_bounds:
  fixes env :: "'d env"
  shows "refresh_calls (fst (response_rejected env w e)) \<le> refresh_calls w + 1
       \<and> dispatches (fst (response_rejected env w e)) \<le> dispatches w + 1"
proof (cases e)
  case (AxiosError config r)
  show ?thesis
  proof (cases "is_unauthorized r \<and> \<not> retry config")
    case True
    then have u: "is_unauthorized r" and n: "\<not> retry config" by simp_all
    show ?thesis
    proof (cases "snd (refresh_access_token env w)")
      case (Inl refreshError)
      show ?thesis
        unfolding AxiosError
        by (simp add: response_rejected_refresh_failed [OF u n Inl] refresh_calls_def
              dispatches_def split: option.splits)
    next
      case (Inr token)
      show ?thesis
        unfolding AxiosError
        by (simp add: response_rejected_refreshed [OF u n Inr] refresh_calls_def dispatches_def)
    qed
  next
    case False
    then show ?thesis
      unfolding AxiosError
      by (cases "retry config")
         (simp_all add: response_rejected_retried response_rejected_not_401)
  qed
qed (simp_all add: response_rejected.simps)

lemma axiosInstance_bounds:
  fixes env :: "'d env"
  shows "refresh_calls (fst (axiosInstance env w config)) \<le> refresh_calls w + 1
       \<and> dispatches (fst (axiosInstance env w config)) \<le> dispatches w + 2"
proof -
  define sent where "sent = request_interceptor w config"
  define w1 where "w1 = w\<lparr>clock := Suc (clock w), trace := trace w @ [Dispatch sent]\<rparr>"
  have w1: "refresh_calls w1 = refresh_calls w" "dispatches w1 = dispatches w + 1"
    by (simp_all add: w1_def refresh_calls_def dispatches_def)
  show ?thesis
  proof (cases "settle sent (backend env (clock w) sent)")
    case (Resolved s d)
    then have "axiosInstance env w config = (w1, Resolved s d)"
      by (simp add: axiosInstance.simps sent_def w1_def Let_def)
    then show ?thesis using w1 by simp
  next
    case (Rejected e)
    then have "axiosInstance env w config = response_rejected env w1 e"
      by (simp add: axiosInstance.simps sent_def w1_def Let_def)
    then show ?thesis
      using response_rejected_bounds [of env w1 e] w1 by simp
  qed
qed

lemma refresh_rejected:
  assumes "snd (axios_post env w (BASE_URL env @ ''/auth/refresh-token'') (refresh_body w))
             = Rejected refreshError"
  shows "snd (refresh_access_token env w) = Inl refreshError"
  using assms
  by (cases "axios_post env w (BASE_URL env @ ''/auth/refresh-token'') (refresh_body w)")
     (simp add: refresh_access_token_def)


lemma issuing_refresh:
  "snd (refresh_access_token env_issuing w) = Inr (Some ''T2'')"
  by (simp add: refresh_access_token_def axios_post_def settle_def env_issuing_def issuing_auth_def)

lemma refusing_refresh:
  "snd (refresh_access_token env_refusing w)
     = Inl (AxiosError (refresh_request env_refusing w)
              (Some \<lparr>status = 401, message = Some ''Refresh token expired''\<rparr>))"
  by (simp add: refresh_access_token_def axios_post_def settle_def env_refusing_def
        refusing_auth_def refresh_request_def)

subsection \<open>A successful refresh\<close>

text \<open>
  Claim C2. When the refresh call after a 401 issues a token, the handler dispatches
  the original request once more: the same request, with the retry marker and with the
  new token as its bearer credential. What the network answers to that dispatch, a
  response or an error, is what the caller receives. The refreshToken cookie is left as
  it was. In a browser the handler has stored the new token before the retry, and the
  accessToken cookie reads as that token afterwards; without a window there is no
  cookie jar, and the token travels on the retried request only.
\<close>

theorem refresh_success_stores_token_and_retries_once:
  fixes env :: "'d env"
  assumes "is_unauthorized r" and "\<not> retry originalRequest"
    and "snd (refresh_access_token env w) = Inr (Some token)"
  shows "\<exists>w' sent.
           response_rejected env w (AxiosError originalRequest r)
             = (w', settle sent (backend env (Suc (clock w)) sent))
         \<and> (window w \<noteq> None \<longrightarrow>
               getCookie ''accessToken'' w' = Some token
             \<and> cookies w' ''accessToken'' = Some (refreshed_cookie env (Some token)))
         \<and> cookies w' ''refreshToken'' = cookies w ''refreshToken''
         \<and> getCookie ''refreshToken'' w' = getCookie ''refreshToken'' w
         \<and> trace w' = trace w @ [Bare_Request (refresh_request env w)]
                       @ (if window w = None then []
                          else [Set_Cookie ''accessToken'' (refreshed_cookie env (Some token))])
                       @ [Dispatch sent]
         \<and> dispatches w' = dispatches w + 1
         \<and> headers sent ''Authorization'' = Some (''Bearer '' @ token)
         \<and> retry sent
         \<and> sent\<lparr>headers := headers originalRequest, retry := False\<rparr> = originalRequest"
proof -
  let ?sent = "retried_request originalRequest (Some token)"
  let ?w' = "fst (response_rejected env w (AxiosError originalRequest r))"
  note eq = response_rejected_refreshed [OF assms]
  have "response_rejected env w (AxiosError originalRequest r)
          = (?w', settle ?sent (backend env (Suc (clock w)) ?sent))"
    by (simp add: eq)
  moreover have "getCookie ''accessToken'' ?w' = Some token"
    "cookies ?w' ''accessToken'' = Some (refreshed_cookie env (Some token))"
    if "window w \<noteq> None"
    using that by (auto simp: eq getCookie_def refreshed_cookie_def template_def)
  moreover have "cookies ?w' ''refreshToken'' = cookies w ''refreshToken''"
    by (simp add: eq)
  moreover have "getCookie ''refreshToken'' ?w' = getCookie ''refreshToken'' w"
    by (cases "window w") (simp_all add: eq getCookie_def)
  moreover have "trace ?w' = trace w @ [Bare_Request (refresh_request env w)]
                       @ (if window w = None then []
                          else [Set_Cookie ''accessToken'' (refreshed_cookie env (Some token))])
                       @ [Dispatch ?sent]"
    by (simp add: eq)
  moreover have "dispatches ?w' = dispatches w + 1"
    by (simp add: eq dispatches_def)
  moreover have "headers ?sent ''Authorization'' = Some (''Bearer '' @ token)" "retry ?sent"
    by (simp_all add: retried_request_def template_def)
  moreover have "?sent\<lparr>headers := headers originalRequest, retry := False\<rparr> = originalRequest"
    using assms(2) by (simp add: retried_request_def)
  ultimately show ?thesis
    by (intro exI [of _ ?w'] exI [of _ ?sent]) blast
qed

theorem refresh_success_stores_token_and_retries_once_witness:
  "is_unauthorized (Some unauthorized) \<and> \<not> retry sales_request
   \<and> snd (refresh_access_token env_issuing (browser ''/dashboard'')) = Inr (Some ''T2'')
   \<and> window (browser ''/dashboard'') \<noteq> None
   \<and> (\<exists>w' sent.
           response_rejected env_issuing (browser ''/dashboard'')
               (AxiosError sales_request (Some unauthorized))
             = (w', settle sent (backend env_issuing (Suc (clock (browser ''/dashboard''))) sent))
         \<and> getCookie ''accessToken'' w' = Some ''T2''
         \<and> cookies w' ''refreshToken'' = cookies (browser ''/dashboard'') ''refreshToken''
         \<and> trace w' = [Bare_Request (refresh_request env_issuing (browser ''/dashboard'')),
                        Set_Cookie ''accessToken'' (refreshed_cookie env_issuing (Some ''T2'')),
                        Dispatch sent]
         \<and> dispatches w' = 1
         \<and> headers sent ''Authorization'' = Some ''Bearer T2''
         \<and> retry sent
         \<and> sent\<lparr>headers := headers sales_request, retry := False\<rparr> = sales_request)"
proof -
  have h: "is_unauthorized (Some unauthorized)" "\<not> retry sales_request"
    by (simp_all add: is_unauthorized_def unauthorized_def sales_request_def)
  have b: "window (browser ''/dashboard'') = Some ''/dashboard''"
    "trace (browser ''/dashboard'') = []" "dispatches (browser ''/dashboard'') = 0"
    by (simp_all add: browser_def dispatches_def)
  have "\<exists>w' sent.
           response_rejected env_issuing (browser ''/dashboard'')
               (AxiosError sales_request (Some unauthorized))
             = (w', settle sent (backend env_issuing (Suc (clock (browser ''/dashboard''))) sent))
         \<and> getCookie ''accessToken'' w' = Some ''T2''
         \<and> cookies w' ''refreshToken'' = cookies (browser ''/dashboard'') ''refreshToken''
         \<and> trace w' = [Bare_Request (refresh_request env_issuing (browser ''/dashboard'')),
                        Set_Cookie ''accessToken'' (refreshed_cookie env_issuing (Some ''T2'')),
                        Dispatch sent]
         \<and> dispatches w' = 1
         \<and> headers sent ''Authorization'' = Some ''Bearer T2''
         \<and> retry sent
         \<and> sent\<lparr>headers := headers sales_request, retry := False\<rparr> = sales_request"
    using refresh_success_stores_token_and_retries_once
        [OF h issuing_refresh [of "browser ''/dashboard''"]]
    by (simp add: b) blast
  then show ?thesis
    using h issuing_refresh [of "browser ''/dashboard''"] by (simp add: b)
qed

text \<open>
  The model runs: a request sent with the expired token \<open>T1\<close> is answered 401, the
  token is refreshed, and the caller receives the answer to the retried request.
\<close>

lemma expired_token_refreshed_behind_the_caller:
  "snd (axiosInstance env_issuing (browser ''/dashboard'')
          (instance_config env_issuing ''/sales'' ''get'' []))
     = Resolved 200 ''sales''
   \<and> getCookie ''accessToken''
        (fst (axiosInstance env_issuing (browser ''/dashboard'')
                (instance_config env_issuing ''/sales'' ''get'' []))) = Some ''T2''
   \<and> refresh_calls (fst (axiosInstance env_issuing (browser ''/dashboard'')
                (instance_config env_issuing ''/sales'' ''get'' []))) = 1
   \<and> dispatches (fst (axiosInstance env_issuing (browser ''/dashboard'')
                (instance_config env_issuing ''/sales'' ''get'' []))) = 2"
  by (simp add: axiosInstance.simps response_rejected.simps Let_def request_interceptor_def
      getCookie_def truthy_def template_def settle_def is_unauthorized_def refresh_access_token_def
      axios_post_def setCookie_def written_def env_issuing_def strict_backend_def issuing_auth_def
      browser_def stored_def instance_config_def refresh_calls_def dispatches_def)

subsection \<open>A failed refresh\<close>

text \<open>
  Claim C3, as the code has it. When the refresh after a 401 fails (the call is rejected,
  or its answer has no payload to read the token from), the handler dispatches nothing
  and rejects with the refresh failure, and afterwards neither token can be read. In a
  browser it has written both cookies with the empty value and max-age 0; without a
  window the cookie library writes nothing. It assigns \<open>/login\<close> to
  \<open>window.location.href\<close> when there is a window whose pathname does not contain
  \<open>/login\<close>, and it does not when there is no window or the pathname is \<open>/login\<close>.
\<close>

theorem refresh_failure_clears_tokens:
  fixes env :: "'d env"
  assumes "is_unauthorized r" and "\<not> retry originalRequest"
    and "snd (refresh_access_token env w) = Inl refreshError"
  shows "\<exists>w'. response_rejected env w (AxiosError originalRequest r) = (w', Rejected refreshError)
         \<and> getCookie ''accessToken'' w' = None \<and> getCookie ''refreshToken'' w' = None
         \<and> (window w \<noteq> None \<longrightarrow>
               cookies w' ''accessToken''
                 = Some \<lparr>cookie_value = [], maxAge = 0, path = ''/'', secure = None, sameSite = None\<rparr>
             \<and> cookies w' ''refreshToken''
                 = Some \<lparr>cookie_value = [], maxAge = 0, path = ''/'', secure = None, sameSite = None\<rparr>)
         \<and> (window w = None \<longrightarrow>
               cookies w' = cookies w
             \<and> trace w' = trace w @ [Bare_Request (refresh_request env w)])
         \<and> (\<forall>p. window w = Some p \<and> \<not> includes_str p ''/login'' \<longrightarrow>
               navigations w' = navigations w @ [''/login''])
         \<and> (window w = None \<or> window w = Some ''/login'' \<longrightarrow> navigations w' = navigations w)
         \<and> dispatches w' = dispatches w"
proof -
  let ?w' = "fst (response_rejected env w (AxiosError originalRequest r))"
  note eq = response_rejected_refresh_failed [OF assms]
  have "response_rejected env w (AxiosError originalRequest r) = (?w', Rejected refreshError)"
    by (simp add: eq)
  moreover have "getCookie ''accessToken'' ?w' = None" "getCookie ''refreshToken'' ?w' = None"
    by (cases "window w"; simp add: eq getCookie_def cleared_cookie_def)+
  moreover have "cookies ?w' ''accessToken'' = Some cleared_cookie"
    "cookies ?w' ''refreshToken'' = Some cleared_cookie" if "window w \<noteq> None"
    using that by (auto simp: eq)
  moreover have "cookies ?w' = cookies w"
    "trace ?w' = trace w @ [Bare_Request (refresh_request env w)]" if "window w = None"
    using that by (simp_all add: eq)
  moreover have "navigations ?w' = navigations w @ [''/login'']"
    if "window w = Some p \<and> \<not> includes_str p ''/login''" for p
    using that by (simp add: eq navigations_def)
  moreover have "navigations ?w' = navigations w"
    if "window w = None \<or> window w = Some ''/login''"
    using that by (auto simp: eq navigations_def)
  moreover have "dispatches ?w' = dispatches w"
    by (cases "window w") (simp_all add: eq dispatches_def)
  ultimately show ?thesis
    unfolding cleared_cookie_def by (intro exI [of _ ?w']) blast
qed

theorem refresh_failure_clears_tokens_witness:
  "(is_unauthorized (Some unauthorized) \<and> \<not> retry sales_request
   \<and> snd (refresh_access_token env_refusing (browser ''/dashboard''))
       = Inl (AxiosError (refresh_request env_refusing (browser ''/dashboard''))
                (Some \<lparr>status = 401, message = Some ''Refresh token expired''\<rparr>))
   \<and> window (browser ''/dashboard'') = Some ''/dashboard''
   \<and> \<not> includes_str ''/dashboard'' ''/login''
   \<and> (\<exists>w'. response_rejected env_refusing (browser ''/dashboard'')
               (AxiosError sales_request (Some unauthorized))
             = (w', Rejected (AxiosError (refresh_request env_refusing (browser ''/dashboard''))
                                (Some \<lparr>status = 401, message = Some ''Refresh token expired''\<rparr>)))
         \<and> cookies w' ''accessToken''
             = Some \<lparr>cookie_value = [], maxAge = 0, path = ''/'', secure = None, sameSite = None\<rparr>
         \<and> cookies w' ''refreshToken''
             = Some \<lparr>cookie_value = [], maxAge = 0, path = ''/'', secure = None, sameSite = None\<rparr>
         \<and> getCookie ''accessToken'' w' = None \<and> getCookie ''refreshToken'' w' = None
         \<and> navigations w' = [''/login'']
         \<and> dispatches w' = 0)
   \<and> window (browser ''/login'') = Some ''/login''
   \<and> navigations (fst (response_rejected env_refusing (browser ''/login'')
                          (AxiosError sales_request (Some unauthorized)))) = [])
   \<and> (is_unauthorized (Some unauthorized) \<and> \<not> retry sales_request
   \<and> isl (snd (refresh_access_token env_refusing server_side))
   \<and> window server_side = None
   \<and> cookies (fst (response_rejected env_refusing server_side
                      (AxiosError sales_request (Some unauthorized)))) = cookies server_side
   \<and> navigations (fst (response_rejected env_refusing server_side
                      (AxiosError sales_request (Some unauthorized)))) = []
   \<and> getCookie ''accessToken'' (fst (response_rejected env_refusing server_side
                      (AxiosError sales_request (Some unauthorized)))) = None)"
proof -
  have in_browser:
    "is_unauthorized (Some unauthorized) \<and> \<not> retry sales_request
   \<and> snd (refresh_access_token env_refusing (browser ''/dashboard''))
       = Inl (AxiosError (refresh_request env_refusing (browser ''/dashboard''))
                (Some \<lparr>status = 401, message = Some ''Refresh token expired''\<rparr>))
   \<and> window (browser ''/dashboard'') = Some ''/dashboard''
   \<and> \<not> includes_str ''/dashboard'' ''/login''
   \<and> (\<exists>w'. response_rejected env_refusing (browser ''/dashboard'')
               (AxiosError sales_request (Some unauthorized))
             = (w', Rejected (AxiosError (refresh_request env_refusing (browser ''/dashboard''))
                                (Some \<lparr>status = 401, message = Some ''Refresh token expired''\<rparr>)))
         \<and> cookies w' ''accessToken''
             = Some \<lparr>cookie_value = [], maxAge = 0, path = ''/'', secure = None, sameSite = None\<rparr>
         \<and> cookies w' ''refreshToken''
             = Some \<lparr>cookie_value = [], maxAge = 0, path = ''/'', secure = None, sameSite = None\<rparr>
         \<and> getCookie ''accessToken'' w' = None \<and> getCookie ''refreshToken'' w' = None
         \<and> navigations w' = [''/login'']
         \<and> dispatches w' = 0)
   \<and> window (browser ''/login'') = Some ''/login''
   \<and> navigations (fst (response_rejected env_refusing (browser ''/login'')
                          (AxiosError sales_request (Some unauthorized)))) = []"
  proof -
    have h: "is_unauthorized (Some unauthorized)" "\<not> retry sales_request"
      by (simp_all add: is_unauthorized_def unauthorized_def sales_request_def)
    have b: "navigations (browser p) = []" "dispatches (browser p) = 0"
      "window (browser p) = Some p" for p
      by (simp_all add: browser_def navigations_def dispatches_def)
    have i: "\<not> includes_str ''/dashboard'' ''/login''"
      by simp
    have 1: "\<exists>w'. response_rejected env_refusing (browser ''/dashboard'')
                 (AxiosError sales_request (Some unauthorized))
               = (w', Rejected (AxiosError (refresh_request env_refusing (browser ''/dashboard''))
                                  (Some \<lparr>status = 401, message = Some ''Refresh token expired''\<rparr>)))
           \<and> cookies w' ''accessToken''
               = Some \<lparr>cookie_value = [], maxAge = 0, path = ''/'', secure = None, sameSite = None\<rparr>
           \<and> cookies w' ''refreshToken''
               = Some \<lparr>cookie_value = [], maxAge = 0, path = ''/'', secure = None, sameSite = None\<rparr>
           \<and> getCookie ''accessToken'' w' = None \<and> getCookie ''refreshToken'' w' = None
           \<and> navigations w' = [''/login'']
           \<and> dispatches w' = 0"
      using refresh_failure_clears_tokens [OF h refusing_refresh [of "browser ''/dashboard''"]] i
      by (simp add: b) blast
    have 2: "navigations (fst (response_rejected env_refusing (browser ''/login'')
                            (AxiosError sales_request (Some unauthorized)))) = []"
      using refresh_failure_clears_tokens [OF h refusing_refresh [of "browser ''/login''"]]
      by (auto simp: b)
    show ?thesis
      using h i 1 2 refusing_refresh [of "browser ''/dashboard''"] by (simp add: b)
  qed
  have without_window:
    "is_unauthorized (Some unauthorized) \<and> \<not> retry sales_request
   \<and> isl (snd (refresh_access_token env_refusing server_side))
   \<and> window server_side = None
   \<and> cookies (fst (response_rejected env_refusing server_side
                      (AxiosError sales_request (Some unauthorized)))) = cookies server_side
   \<and> navigations (fst (response_rejected env_refusing server_side
                      (AxiosError sales_request (Some unauthorized)))) = []
   \<and> getCookie ''accessToken'' (fst (response_rejected env_refusing server_side
                      (AxiosError sales_request (Some unauthorized)))) = None"
  proof -
    have h: "is_unauthorized (Some unauthorized)" "\<not> retry sales_request"
      by (simp_all add: is_unauthorized_def unauthorized_def sales_request_def)
    have s: "window server_side = None" "navigations server_side = []"
      by (simp_all add: server_side_def navigations_def)
    show ?thesis
      using h s refusing_refresh [of server_side]
        refresh_failure_clears_tokens [OF h refusing_refresh [of server_side]]
      by auto
  qed
  show ?thesis
    using in_browser without_window by blast
qed

text \<open>
  Without a window nothing is written: the handler has sent the refresh call and
  nothing else, and no cookie with the empty value and max-age 0 is there afterwards.
\<close>

theorem refresh_failure_without_window_counterexample:
  "is_unauthorized (Some unauthorized) \<and> \<not> retry sales_request
   \<and> isl (snd (refresh_access_token env_refusing server_side))
   \<and> window server_side = None
   \<and> cookies (fst (response_rejected env_refusing server_side
                      (AxiosError sales_request (Some unauthorized)))) ''accessToken'' = None
   \<and> cookies (fst (response_rejected env_refusing server_side
                      (AxiosError sales_request (Some unauthorized)))) ''refreshToken'' = None
   \<and> trace (fst (response_rejected env_refusing server_side
                    (AxiosError sales_request (Some unauthorized))))
       = [Bare_Request (refresh_request env_refusing server_side)]"
proof -
  have h: "is_unauthorized (Some unauthorized)" "\<not> retry sales_request"
    by (simp_all add: is_unauthorized_def unauthorized_def sales_request_def)
  show ?thesis
    using h
    by (simp add: response_rejected_refresh_failed [OF h refusing_refresh] refusing_refresh)
       (simp add: server_side_def)
qed

subsection \<open>The refresh call does not pass through the interceptor\<close>

text \<open>
  Claim C10. The refresh call is sent by the bare client (\<open>axios_post\<close>), which runs no
  interceptor: when it is rejected, with status 401 or in any other way, the handler
  rejects with that failure, having sent one refresh call and dispatched nothing. The
  retried request carries the marker, so the handler does not refresh for it again: one
  call of the instance, whatever the request and the backend, sends at most one refresh
  call and at most two dispatches, and one call of the handler at most one of each.
  Both functions are total: their mutual recursion is bounded by the marker (see the
  termination proof of \<open>axiosInstance\<close>).
\<close>

theorem refresh_goes_around_the_interceptor:
  fixes env :: "'d env"
  shows "refresh_calls (fst (axiosInstance env w config)) \<le> refresh_calls w + 1
       \<and> dispatches (fst (axiosInstance env w config)) \<le> dispatches w + 2
       \<and> refresh_calls (fst (response_rejected env w e)) \<le> refresh_calls w + 1
       \<and> dispatches (fst (response_rejected env w e)) \<le> dispatches w + 1
       \<and> (is_unauthorized r \<and> \<not> retry originalRequest
            \<and> snd (axios_post env w (BASE_URL env @ ''/auth/refresh-token'') (refresh_body w))
                  = Rejected refreshError
          \<longrightarrow> snd (response_rejected env w (AxiosError originalRequest r)) = Rejected refreshError
            \<and> refresh_calls (fst (response_rejected env w (AxiosError originalRequest r)))
                  = refresh_calls w + 1
            \<and> dispatches (fst (response_rejected env w (AxiosError originalRequest r)))
                  = dispatches w)"
proof (intro conjI impI)
  show "refresh_calls (fst (axiosInstance env w config)) \<le> refresh_calls w + 1"
    "dispatches (fst (axiosInstance env w config)) \<le> dispatches w + 2"
    using axiosInstance_bounds [of env w config] by simp_all
  show "refresh_calls (fst (response_rejected env w e)) \<le> refresh_calls w + 1"
    "dispatches (fst (response_rejected env w e)) \<le> dispatches w + 1"
    using response_rejected_bounds [of env w e] by simp_all
next
  assume a: "is_unauthorized r \<and> \<not> retry originalRequest
            \<and> snd (axios_post env w (BASE_URL env @ ''/auth/refresh-token'') (refresh_body w))
                  = Rejected refreshError"
  then have u: "is_unauthorized r" and n: "\<not> retry originalRequest"
    and f: "snd (refresh_access_token env w) = Inl refreshError"
    by (simp_all add: refresh_rejected)
  note eq = response_rejected_refresh_failed [OF u n f]
  show "snd (response_rejected env w (AxiosError originalRequest r)) = Rejected refreshError"
    by (simp add: eq)
  show "refresh_calls (fst (response_rejected env w (AxiosError originalRequest r)))
                  = refresh_calls w + 1"
    by (cases "window w") (simp_all add: eq refresh_calls_def)
  show "dispatches (fst (response_rejected env w (AxiosError originalRequest r)))
                  = dispatches w"
    by (cases "window w") (simp_all add: eq dispatches_def)
qed

theorem refresh_goes_around_the_interceptor_witness:
  "is_unauthorized (Some unauthorized) \<and> \<not> retry sales_request
   \<and> snd (axios_post env_refusing (browser ''/dashboard'')
             (BASE_URL env_refusing @ ''/auth/refresh-token'') (refresh_body (browser ''/dashboard'')))
       = Rejected (AxiosError (refresh_request env_refusing (browser ''/dashboard''))
                     (Some \<lparr>status = 401, message = Some ''Refresh token expired''\<rparr>))
   \<and> snd (response_rejected env_refusing (browser ''/dashboard'')
             (AxiosError sales_request (Some unauthorized)))
       = Rejected (AxiosError (refresh_request env_refusing (browser ''/dashboard''))
                     (Some \<lparr>status = 401, message = Some ''Refresh token expired''\<rparr>))
   \<and> refresh_calls (fst (response_rejected env_refusing (browser ''/dashboard'')
                            (AxiosError sales_request (Some unauthorized)))) = 1
   \<and> dispatches (fst (response_rejected env_refusing (browser ''/dashboard'')
                            (AxiosError sales_request (Some unauthorized)))) = 0
   \<and> refresh_calls (fst (axiosInstance env_refusing (browser ''/dashboard'') sales_request)) \<le> 1
   \<and> dispatches (fst (axiosInstance env_refusing (browser ''/dashboard'') sales_request)) \<le> 2"
proof -
  have h: "is_unauthorized (Some unauthorized)" "\<not> retry sales_request"
    by (simp_all add: is_unauthorized_def unauthorized_def sales_request_def)
  have p: "snd (axios_post env_refusing (browser ''/dashboard'')
             (BASE_URL env_refusing @ ''/auth/refresh-token'') (refresh_body (browser ''/dashboard'')))
       = Rejected (AxiosError (refresh_request env_refusing (browser ''/dashboard''))
                     (Some \<lparr>status = 401, message = Some ''Refresh token expired''\<rparr>))"
    by (simp add: axios_post_def settle_def env_refusing_def refusing_auth_def refresh_request_def)
  have b: "refresh_calls (browser ''/dashboard'') = 0" "dispatches (browser ''/dashboard'') = 0"
    by (simp_all add: browser_def refresh_calls_def dispatches_def)
  show ?thesis
    using h p
      refresh_goes_around_the_interceptor
        [of env_refusing "browser ''/dashboard''" sales_request
            "AxiosError sales_request (Some unauthorized)" "Some unauthorized" sales_request
            "AxiosError (refresh_request env_refusing (browser ''/dashboard''))
                     (Some \<lparr>status = 401, message = Some ''Refresh token expired''\<rparr>)"]
    by (simp add: b)
qed

lemma window_response_rejected:
  fixes env :: "'d env"
  shows "window (fst (response_rejected env w e)) = window w"
proof (cases e)
  case (AxiosError config r)
  show ?thesis
  proof (cases "is_unauthorized r \<and> \<not> retry config")
    case True
    then have u: "is_unauthorized r" and n: "\<not> retry config" by simp_all
    show ?thesis
    proof (cases "snd (refresh_access_token env w)")
      case (Inl refreshError)
      show ?thesis
        unfolding AxiosError by (simp add: response_rejected_refresh_failed [OF u n Inl])
    next
      case (Inr token)
      show ?thesis
        unfolding AxiosError by (simp add: response_rejected_refreshed [OF u n Inr])
    qed
  next
    case False
    then show ?thesis
      unfolding AxiosError
      by (cases "retry config")
         (simp_all add: response_rejected_retried response_rejected_not_401)
  qed
qed (simp_all add: response_rejected.simps)

lemma window_axiosInstance:
  fixes env :: "'d env"
  shows "window (fst (axiosInstance env w config)) = window w"
proof -
  define sent where "sent = request_interceptor w config"
  define w1 where "w1 = w\<lparr>clock := Suc (clock w), trace := trace w @ [Dispatch sent]\<rparr>"
  show ?thesis
  proof (cases "settle sent (backend env (clock w) sent)")
    case (Resolved s d)
    then have "axiosInstance env w config = (w1, Resolved s d)"
      by (simp add: axiosInstance.simps sent_def w1_def Let_def)
    then show ?thesis by (simp add: w1_def)
  next
    case (Rejected e)
    then have "axiosInstance env w config = response_rejected env w1 e"
      by (simp add: axiosInstance.simps sent_def w1_def Let_def)
    then show ?thesis
      using window_response_rejected [of env w1 e] by (simp add: w1_def)
  qed
qed

lemma trace_response_rejected:
  fixes env :: "'d env"
  shows "\<exists>es. trace (fst (response_rejected env w e)) = trace w @ es"
proof (cases e)
  case (AxiosError config r)
  show ?thesis
  proof (cases "is_unauthorized r \<and> \<not> retry config")
    case True
    then have u: "is_unauthorized r" and n: "\<not> retry config" by simp_all
    show ?thesis
    proof (cases "snd (refresh_access_token env w)")
      case (Inl refreshError)
      show ?thesis
        unfolding AxiosError by (simp add: response_rejected_refresh_failed [OF u n Inl])
    next
      case (Inr token)
      show ?thesis
        unfolding AxiosError by (simp add: response_rejected_refreshed [OF u n Inr])
    qed
  next
    case False
    then show ?thesis
      unfolding AxiosError
      by (cases "retry config")
         (simp_all add: response_rejected_retried response_rejected_not_401)
  qed
qed (simp_all add: response_rejected.simps)

lemma trace_axiosInstance:
  fixes env :: "'d env"
  shows "\<exists>rest. trace (fst (axiosInstance env w config))
                  = trace w @ Dispatch (request_interceptor w config) # rest"
proof -
  define sent where "sent = request_interceptor w config"
  define w1 where "w1 = w\<lparr>clock := Suc (clock w), trace := trace w @ [Dispatch sent]\<rparr>"
  show ?thesis
  proof (cases "settle sent (backend env (clock w) sent)")
    case (Resolved s d)
    then have "axiosInstance env w config = (w1, Resolved s d)"
      by (simp add: axiosInstance.simps sent_def w1_def Let_def)
    then show ?thesis by (simp add: w1_def sent_def)
  next
    case (Rejected e)
    then have "axiosInstance env w config = response_rejected env w1 e"
      by (simp add: axiosInstance.simps sent_def w1_def Let_def)
    then show ?thesis
      using trace_response_rejected [of env w1 e] by (auto simp: w1_def sent_def)
  qed
qed

lemma rejected_not_by_library:
  fixes env :: "'d env"
  assumes "axiosInstance env w config = (w1, Rejected err)"
    and "\<nexists>c r. err = AxiosError c r"
  shows "getCookie ''accessToken'' w1 = None"
proof -
  define sent where "sent = request_interceptor w config"
  define w0 where "w0 = w\<lparr>clock := Suc (clock w), trace := trace w @ [Dispatch sent]\<rparr>"
  show ?thesis
  proof (cases "settle sent (backend env (clock w) sent)")
    case (Resolved s d)
    then have "axiosInstance env w config = (w0, Resolved s d)"
      by (simp add: axiosInstance.simps sent_def w0_def Let_def)
    then show ?thesis using assms(1) by simp
  next
    case (Rejected e)
    then obtain er where e: "e = AxiosError sent er"
      using settle_cases [of sent "backend env (clock w) sent"] by auto
    have a: "axiosInstance env w config = response_rejected env w0 (AxiosError sent er)"
      using Rejected e by (simp add: axiosInstance.simps sent_def w0_def Let_def)
    show ?thesis
    proof (cases "is_unauthorized er \<and> \<not> retry sent")
      case False
      then have "response_rejected env w0 (AxiosError sent er) = (w0, Rejected (AxiosError sent er))"
        by (cases "retry sent") (simp_all add: response_rejected_retried response_rejected_not_401)
      then show ?thesis using a assms by simp
    next
      case True
      then have u: "is_unauthorized er" and n: "\<not> retry sent" by simp_all
      show ?thesis
      proof (cases "snd (refresh_access_token env w0)")
        case (Inl refreshError)
        show ?thesis
          using a assms(1) response_rejected_refresh_failed [OF u n Inl]
          by (cases "window w0") (auto simp: getCookie_def cleared_cookie_def)
      next
        case (Inr token)
        show ?thesis
          using a assms response_rejected_refreshed [OF u n Inr]
            settle_cases [of "retried_request sent token"
                             "backend env (Suc (clock w0)) (retried_request sent token)"]
          by auto
      qed
    qed
  qed
qed

section \<open>Properties of the session resolver\<close>

subsection \<open>The derived value isAuthenticated\<close>

text \<open>
  Claim C5. \<open>isAuthenticated\<close> holds exactly when a user record is in memory and the
  accessToken cookie can be read with a non-empty value. Removing the user, removing the
  cookie, emptying its value or clearing the cookies as logout does makes it false.
\<close>

theorem isAuthenticated_iff_user_and_token:
  "(isAuthenticated w s \<longleftrightarrow>
      user s \<noteq> None \<and> (\<exists>v. getCookie ''accessToken'' w = Some v \<and> v \<noteq> []))
   \<and> \<not> isAuthenticated w (s\<lparr>user := None\<rparr>)
   \<and> \<not> isAuthenticated (w\<lparr>cookies := (cookies w)(''accessToken'' := None)\<rparr>) s
   \<and> \<not> isAuthenticated (setCookie ''accessToken'' (c\<lparr>cookie_value := []\<rparr>) w) s
   \<and> \<not> isAuthenticated (clear_auth_cookies w) s"
  by (auto simp: isAuthenticated_def truthy_def getCookie_def setCookie_def written_def
        clear_auth_cookies_eq cleared_cookie_def split: option.splits if_splits)

theorem isAuthenticated_iff_user_and_token_witness:
  "isAuthenticated (browser ''/dashboard'') signed_in
   \<and> user signed_in \<noteq> None \<and> getCookie ''accessToken'' (browser ''/dashboard'') = Some ''T1''
   \<and> \<not> isAuthenticated (browser ''/dashboard'') (signed_in\<lparr>user := None\<rparr>)
   \<and> \<not> isAuthenticated (clear_auth_cookies (browser ''/dashboard'')) signed_in"
  using isAuthenticated_iff_user_and_token [of "browser ''/dashboard''" signed_in]
  by (simp add: browser_def signed_in_def getCookie_def stored_def)

subsection \<open>Logout\<close>

text \<open>
  Claim C9. \<open>logout()\<close> posts to \<open>/auth/logout\<close> through the instance: the request is
  dispatched, with the bearer token if one is stored, before anything else happens, and
  the in-memory user is cleared whatever comes of it. In a browser, where the handler
  runs, a rejected request adds one line to the console and nothing else; then both
  cookies are written with the empty value and max-age 0 and \<open>/login\<close> is assigned to
  \<open>window.location.href\<close>, in this order, the promise of \<open>logout()\<close> is fulfilled, and
  neither token can be read any more.
\<close>

theorem logout_always_clears:
  fixes env :: "'d env"
  shows "\<exists>w' rest.
            fst (logout env (w, s)) = (w', s\<lparr>user := None\<rparr>)
          \<and> trace (fst (axiosInstance env w (logout_request env)))
               = trace w @ Dispatch (request_interceptor w (logout_request env)) # rest
          \<and> url (request_interceptor w (logout_request env)) = ''/auth/logout''
          \<and> http_method (request_interceptor w (logout_request env)) = ''post''
          \<and> baseURL (request_interceptor w (logout_request env)) = Some (BASE_URL env)
          \<and> (window w \<noteq> None \<longrightarrow>
                snd (logout env (w, s)) = Inr ()
              \<and> trace w'
                  = trace w @ Dispatch (request_interceptor w (logout_request env)) # rest
                    @ (case snd (axiosInstance env w (logout_request env)) of
                         Resolved st d \<Rightarrow> []
                       | Rejected err \<Rightarrow> [Console_Error ''Logout API call failed:''])
                    @ [Set_Cookie ''accessToken'' cleared_cookie,
                       Set_Cookie ''refreshToken'' cleared_cookie,
                       Navigate ''/login'']
              \<and> cookies w' ''accessToken''
                  = Some \<lparr>cookie_value = [], maxAge = 0, path = ''/'', secure = None, sameSite = None\<rparr>
              \<and> cookies w' ''refreshToken''
                  = Some \<lparr>cookie_value = [], maxAge = 0, path = ''/'', secure = None, sameSite = None\<rparr>
              \<and> getCookie ''accessToken'' w' = None
              \<and> getCookie ''refreshToken'' w' = None)"
proof -
  obtain w1 response where a: "axiosInstance env w (logout_request env) = (w1, response)"
    by (cases "axiosInstance env w (logout_request env)")
  obtain rest where t: "trace w1 = trace w @ Dispatch (request_interceptor w (logout_request env)) # rest"
    using trace_axiosInstance [of env w "logout_request env"] a by auto
  have win: "window w1 = window w"
    using window_axiosInstance [of env w "logout_request env"] a by simp
  have q: "url (request_interceptor w (logout_request env)) = ''/auth/logout''"
    "http_method (request_interceptor w (logout_request env)) = ''post''"
    "baseURL (request_interceptor w (logout_request env)) = Some (BASE_URL env)"
    by (simp_all add: request_interceptor_def logout_request_def instance_config_def Let_def)
  let ?w' = "fst (fst (logout env (w, s)))"
  have 1: "fst (logout env (w, s)) = (?w', s\<lparr>user := None\<rparr>)"
    using a
    by (cases response; cases "window w1")
       (simp_all add: logout_def Let_def clear_auth_cookies_eq console_error_def navigate_def)
  have 2: "snd (logout env (w, s)) = Inr ()
              \<and> trace ?w'
                  = trace w @ Dispatch (request_interceptor w (logout_request env)) # rest
                    @ (case response of
                         Resolved st d \<Rightarrow> []
                       | Rejected err \<Rightarrow> [Console_Error ''Logout API call failed:''])
                    @ [Set_Cookie ''accessToken'' cleared_cookie,
                       Set_Cookie ''refreshToken'' cleared_cookie,
                       Navigate ''/login'']
              \<and> cookies ?w' ''accessToken'' = Some cleared_cookie
              \<and> cookies ?w' ''refreshToken'' = Some cleared_cookie
              \<and> getCookie ''accessToken'' ?w' = None
              \<and> getCookie ''refreshToken'' ?w' = None"
    if nw: "window w \<noteq> None"
  proof -
    obtain p where p: "window w1 = Some p" using nw win by auto
    show ?thesis
      using a t p
      by (cases response)
         (simp_all add: logout_def Let_def clear_auth_cookies_eq console_error_def navigate_def
            getCookie_def cleared_cookie_def)
  qed
  show ?thesis
    using 1 2 q t a unfolding cleared_cookie_def
    by (intro exI [of _ ?w'] exI [of _ rest]) simp
qed

theorem logout_always_clears_witness:
  "window (browser ''/dashboard'') \<noteq> None
   \<and> snd (axiosInstance env_down (browser ''/dashboard'') (logout_request env_down))
       = Rejected (AxiosError (request_interceptor (browser ''/dashboard'') (logout_request env_down)) None)
   \<and> headers (request_interceptor (browser ''/dashboard'') (logout_request env_down)) ''Authorization''
       = Some ''Bearer T1''
   \<and> (\<exists>w'. logout env_down (browser ''/dashboard'', signed_in)
                = ((w', signed_in\<lparr>user := None\<rparr>), Inr ())
          \<and> trace w'
               = [Dispatch (request_interceptor (browser ''/dashboard'') (logout_request env_down)),
                  Console_Error ''Logout API call failed:'',
                  Set_Cookie ''accessToken'' cleared_cookie,
                  Set_Cookie ''refreshToken'' cleared_cookie,
                  Navigate ''/login'']
          \<and> getCookie ''accessToken'' w' = None
          \<and> getCookie ''refreshToken'' w' = None)"
proof -
  let ?sent = "request_interceptor (browser ''/dashboard'') (logout_request env_down)"
  have w: "window (browser ''/dashboard'') \<noteq> None" "trace (browser ''/dashboard'') = []"
    by (simp_all add: browser_def)
  have r: "axiosInstance env_down (browser ''/dashboard'') (logout_request env_down)
             = ((browser ''/dashboard'')\<lparr>clock := 1, trace := [Dispatch ?sent]\<rparr>,
                Rejected (AxiosError ?sent None))"
    by (simp add: axiosInstance.simps Let_def env_down_def no_reply_def settle_def
          response_rejected_not_401 is_unauthorized_def)
       (simp add: browser_def)
  have hd: "headers ?sent ''Authorization'' = Some ''Bearer T1''"
    by (simp add: request_interceptor_def getCookie_def browser_def stored_def truthy_def
          template_def Let_def)
  obtain w' rest where w':
      "fst (logout env_down (browser ''/dashboard'', signed_in)) = (w', signed_in\<lparr>user := None\<rparr>)"
      "[Dispatch ?sent] = Dispatch ?sent # rest"
      "snd (logout env_down (browser ''/dashboard'', signed_in)) = Inr ()"
      "trace w' = Dispatch ?sent # rest
                    @ [Console_Error ''Logout API call failed:'',
                       Set_Cookie ''accessToken'' cleared_cookie,
                       Set_Cookie ''refreshToken'' cleared_cookie,
                       Navigate ''/login'']"
      "getCookie ''accessToken'' w' = None" "getCookie ''refreshToken'' w' = None"
    using logout_always_clears [of env_down "browser ''/dashboard''" signed_in] w
    by (auto simp: r)
  have "logout env_down (browser ''/dashboard'', signed_in) = ((w', signed_in\<lparr>user := None\<rparr>), Inr ())"
    using w'(1,3) by (cases "logout env_down (browser ''/dashboard'', signed_in)") simp
  moreover have "rest = []" using w'(2) by simp
  ultimately show ?thesis
    using w r hd w'(4,5,6) by simp
qed

lemma or_else_nonempty: "d \<noteq> [] \<Longrightarrow> or_else v d \<noteq> []"
  by (simp add: or_else_def split: option.splits)

lemma down_session:
  "axiosInstance env_down w (session_request env_down)
     = (w\<lparr>clock := Suc (clock w),
          trace := trace w @ [Dispatch (request_interceptor w (session_request env_down))]\<rparr>,
        Rejected (AxiosError (request_interceptor w (session_request env_down)) None))"
  by (simp add: axiosInstance.simps Let_def env_down_def no_reply_def settle_def
        response_rejected_not_401 is_unauthorized_def)

lemma empty_refresh_session:
  "snd (axiosInstance env_empty_refresh (browser p) (session_request env_empty_refresh))
     = Rejected (TypeError ''Cannot destructure property accessToken of undefined'')"
  by (simp add: axiosInstance.simps response_rejected.simps Let_def env_empty_refresh_def
        session_expired_def empty_auth_def settle_def is_unauthorized_def
        refresh_access_token_def axios_post_def request_interceptor_def session_request_def
        instance_config_def)

lemma no_session_reply:
  "axiosInstance env_no_session w (session_request env_no_session)
     = (w\<lparr>clock := Suc (clock w),
          trace := trace w @ [Dispatch (request_interceptor w (session_request env_no_session))]\<rparr>,
        Resolved 200 no_session)"
  by (simp add: axiosInstance.simps Let_def env_no_session_def session_refused_def settle_def)

lemma without_data_reply:
  "axiosInstance env_without_data w (session_request env_without_data)
     = (w\<lparr>clock := Suc (clock w),
          trace := trace w @ [Dispatch (request_interceptor w (session_request env_without_data))]\<rparr>,
        Resolved 200 success_without_data)"
  by (simp add: axiosInstance.simps Let_def env_without_data_def session_without_data_def
        settle_def)

lemma without_user_reply:
  "axiosInstance env_without_user w (session_request env_without_user)
     = (w\<lparr>clock := Suc (clock w),
          trace := trace w @ [Dispatch (request_interceptor w (session_request env_without_user))]\<rparr>,
        Resolved 200 success_without_user)"
  by (simp add: axiosInstance.simps Let_def env_without_user_def session_without_user_def
        settle_def)

lemma empty_refresh_session_world:
  "axiosInstance env_empty_refresh (browser p) (session_request env_empty_refresh)
     = (fst (axiosInstance env_empty_refresh (browser p) (session_request env_empty_refresh)),
        Rejected (TypeError ''Cannot destructure property accessToken of undefined''))"
  using empty_refresh_session [of p]
  by (cases "axiosInstance env_empty_refresh (browser p) (session_request env_empty_refresh)") simp

subsection \<open>A failed session resolution\<close>

text \<open>
  Claim C6, as the code has it. When the session request is rejected, the resolver sets
  a non-empty error string (the message of the backend, or a fixed text), leaves the
  loading state, and does nothing to the world: the world after the resolver is the one
  the HTTP client left, so the resolver itself navigates nowhere. Afterwards
  \<open>isAuthenticated\<close> is false, whatever the failure: an error of the HTTP library makes
  the resolver clear the in-memory user, and any other rejection comes out of the
  handler's failed refresh, after which no access token can be read.
\<close>

theorem failed_resolution_sets_error:
  assumes "axiosInstance env w (session_request env) = (w1, Rejected err)"
  shows "\<exists>s'. fetchSession env (w, s) = (w1, s')
          \<and> (\<exists>msg. error s' = Some msg \<and> msg \<noteq> [])
          \<and> \<not> loading s'
          \<and> \<not> isAuthenticated w1 s'
          \<and> (\<forall>config r. err = AxiosError config r \<longrightarrow>
                error s' = Some (or_else (case r of None \<Rightarrow> None | Some er \<Rightarrow> message er)
                                   ''Failed to fetch session'')
                \<and> user s' = None)
          \<and> ((\<nexists>config r. err = AxiosError config r) \<longrightarrow>
                error s' = Some ''An unexpected error occurred'')
          \<and> (user s = None \<longrightarrow> user s' = None)"
proof (cases "\<exists>config r. err = AxiosError config r")
  case True
  then obtain config r where e: "err = AxiosError config r" by auto
  let ?s' = "s\<lparr>error := Some (or_else (case r of None \<Rightarrow> None | Some er \<Rightarrow> message er)
                                   ''Failed to fetch session''),
               user := None, loading := False\<rparr>"
  have "fetchSession env (w, s) = (w1, ?s')"
    using assms e
    by (simp add: fetchSession_def fetchSession_settled_def fetchSession_catch_def)
  then show ?thesis
    using e or_else_nonempty [of "''Failed to fetch session''"]
    by (intro exI [of _ ?s']) (simp add: isAuthenticated_def)
next
  case False
  let ?s' = "s\<lparr>error := Some ''An unexpected error occurred'', loading := False\<rparr>"
  have c: "getCookie ''accessToken'' w1 = None"
    using rejected_not_by_library [OF assms] False by simp
  have "fetchSession env (w, s) = (w1, ?s')"
    using assms False
    by (cases err) (simp_all add: fetchSession_def fetchSession_settled_def fetchSession_catch_def)
  then show ?thesis
    using False c
    by (intro exI [of _ ?s']) (simp add: isAuthenticated_def truthy_def)
qed

theorem failed_resolution_sets_error_witness:
  "axiosInstance env_down (browser ''/dashboard'') (session_request env_down)
     = (fst (axiosInstance env_down (browser ''/dashboard'') (session_request env_down)),
        Rejected (AxiosError (request_interceptor (browser ''/dashboard'') (session_request env_down)) None))
   \<and> fetchSession env_down (browser ''/dashboard'', signed_in)
       = (fst (axiosInstance env_down (browser ''/dashboard'') (session_request env_down)),
          \<lparr>user = None, loading = False, error = Some ''Failed to fetch session''\<rparr>)
   \<and> \<not> isAuthenticated (fst (fetchSession env_down (browser ''/dashboard'', signed_in)))
         (snd (fetchSession env_down (browser ''/dashboard'', signed_in)))
   \<and> navigations (fst (fetchSession env_down (browser ''/dashboard'', signed_in))) = []
   \<and> snd (axiosInstance env_empty_refresh (browser ''/dashboard'') (session_request env_empty_refresh))
       = Rejected (TypeError ''Cannot destructure property accessToken of undefined'')
   \<and> user initial_auth_state = None
   \<and> error (snd (fetchSession env_empty_refresh (browser ''/dashboard'', initial_auth_state)))
       = Some ''An unexpected error occurred''
   \<and> user (snd (fetchSession env_empty_refresh (browser ''/dashboard'', initial_auth_state))) = None
   \<and> \<not> isAuthenticated (fst (fetchSession env_empty_refresh (browser ''/dashboard'', signed_in)))
         (snd (fetchSession env_empty_refresh (browser ''/dashboard'', signed_in)))"
proof -
  let ?w1 = "fst (axiosInstance env_down (browser ''/dashboard'') (session_request env_down))"
  let ?e = "AxiosError (request_interceptor (browser ''/dashboard'') (session_request env_down)) None"
  let ?w2 = "fst (axiosInstance env_empty_refresh (browser ''/dashboard'') (session_request env_empty_refresh))"
  let ?t = "TypeError ''Cannot destructure property accessToken of undefined''"
  have a: "axiosInstance env_down (browser ''/dashboard'') (session_request env_down) = (?w1, Rejected ?e)"
    by (simp add: down_session)
  have n: "navigations ?w1 = []"
    by (simp add: down_session navigations_def browser_def)
  obtain s' where s': "fetchSession env_down (browser ''/dashboard'', signed_in) = (?w1, s')"
    "\<not> loading s'" "user s' = None" "error s' = Some ''Failed to fetch session''"
    "\<not> isAuthenticated ?w1 s'"
    using failed_resolution_sets_error [OF a, of signed_in]
    by (auto simp: or_else_def)
  then have eq: "s' = \<lparr>user = None, loading = False, error = Some ''Failed to fetch session''\<rparr>"
    by (cases s') simp
  note b = empty_refresh_session_world [of "''/dashboard''"]
  have i: "user initial_auth_state = None"
    by (simp add: initial_auth_state_def)
  obtain s2 where s2: "fetchSession env_empty_refresh (browser ''/dashboard'', initial_auth_state) = (?w2, s2)"
    "error s2 = Some ''An unexpected error occurred''" "user s2 = None"
    using failed_resolution_sets_error [OF b, of initial_auth_state] i by auto
  obtain s3 where s3: "fetchSession env_empty_refresh (browser ''/dashboard'', signed_in) = (?w2, s3)"
    "\<not> isAuthenticated ?w2 s3"
    using failed_resolution_sets_error [OF b, of signed_in] by auto
  show ?thesis
    using a s'(1,5) eq n empty_refresh_session [of "''/dashboard''"] i s2 s3 by simp
qed

text \<open>
  A failure that is not an error of the HTTP library does not clear the user. Here the
  session request is answered with 401 and the refresh endpoint answers without a
  payload: the handler rejects with the TypeError of the destructuring, and the user
  that was in memory before the resolution is still there after it.
\<close>

theorem failed_resolution_keeps_user_counterexample:
  "snd (axiosInstance env_empty_refresh (browser ''/dashboard'') (session_request env_empty_refresh))
     = Rejected (TypeError ''Cannot destructure property accessToken of undefined'')
   \<and> user (snd (fetchSession env_empty_refresh (browser ''/dashboard'', signed_in))) = Some alice"
proof -
  obtain w1 where
    "axiosInstance env_empty_refresh (browser ''/dashboard'') (session_request env_empty_refresh)
       = (w1, Rejected (TypeError ''Cannot destructure property accessToken of undefined''))"
    using empty_refresh_session [of "''/dashboard''"]
    by (cases "axiosInstance env_empty_refresh (browser ''/dashboard'') (session_request env_empty_refresh)")
       simp
  then show ?thesis
    by (simp add: fetchSession_def fetchSession_settled_def fetchSession_catch_def signed_in_def)
qed

subsection \<open>A success response of another shape\<close>

text \<open>
  Claim C8, as the code has it. When the session request is fulfilled with a body whose
  status is not the success sentinel, or whose status is the sentinel and whose data
  envelope is there but carries no user, the resolver sets the error to null, leaves
  the loading state and does not touch the in-memory user: it is absent afterwards when
  it was absent before, as on the first resolution.
\<close>

theorem other_success_shape_sets_no_error:
  assumes "axiosInstance env w (session_request env) = (w1, Resolved st d)"
    and "session_status d \<noteq> ''SUCCESS''
         \<or> (\<exists>sd. session_data d = Some sd \<and> data_user sd = None)"
  shows "fetchSession env (w, s) = (w1, s\<lparr>error := None, loading := False\<rparr>)
       \<and> error (snd (fetchSession env (w, s))) = None
       \<and> user (snd (fetchSession env (w, s))) = user s
       \<and> (user s = None \<longrightarrow> user (snd (fetchSession env (w, s))) = None)"
  using assms
  by (auto simp: fetchSession_def fetchSession_settled_def fetchSession_try_def)

theorem other_success_shape_sets_no_error_witness:
  "axiosInstance env_no_session login_window (session_request env_no_session)
     = (fst (axiosInstance env_no_session login_window (session_request env_no_session)),
        Resolved 200 no_session)
   \<and> session_status no_session \<noteq> ''SUCCESS''
   \<and> user initial_auth_state = None
   \<and> error (snd (fetchSession env_no_session (login_window, initial_auth_state))) = None
   \<and> user (snd (fetchSession env_no_session (login_window, initial_auth_state))) = None
   \<and> axiosInstance env_without_user login_window (session_request env_without_user)
     = (fst (axiosInstance env_without_user login_window (session_request env_without_user)),
        Resolved 200 success_without_user)
   \<and> session_data success_without_user
       = Some \<lparr>data_user = None, data_token = ''T1'', data_expiresIn = 86400000\<rparr>
   \<and> data_user \<lparr>data_user = None, data_token = ''T1'', data_expiresIn = 86400000\<rparr> = None
   \<and> error (snd (fetchSession env_without_user (login_window, initial_auth_state))) = None
   \<and> user (snd (fetchSession env_without_user (login_window, initial_auth_state))) = None"
proof -
  have a: "axiosInstance env_no_session login_window (session_request env_no_session)
     = (fst (axiosInstance env_no_session login_window (session_request env_no_session)),
        Resolved 200 no_session)"
    by (simp add: no_session_reply)
  have b: "session_status no_session \<noteq> ''SUCCESS''"
    by (simp add: no_session_def)
  have b': "session_status no_session \<noteq> ''SUCCESS''
         \<or> (\<exists>sd. session_data no_session = Some sd \<and> data_user sd = None)"
    using b by simp
  have c: "axiosInstance env_without_user login_window (session_request env_without_user)
     = (fst (axiosInstance env_without_user login_window (session_request env_without_user)),
        Resolved 200 success_without_user)"
    by (simp add: without_user_reply)
  have d: "session_data success_without_user
       = Some \<lparr>data_user = None, data_token = ''T1'', data_expiresIn = 86400000\<rparr>"
    by (simp add: success_without_user_def)
  have d': "session_status success_without_user \<noteq> ''SUCCESS''
         \<or> (\<exists>sd. session_data success_without_user = Some sd \<and> data_user sd = None)"
    using d by simp
  have 1: "error (snd (fetchSession env_no_session (login_window, initial_auth_state))) = None"
    "user (snd (fetchSession env_no_session (login_window, initial_auth_state))) = None"
    using other_success_shape_sets_no_error [OF a b', of initial_auth_state]
    by (simp_all add: initial_auth_state_def)
  have 2: "error (snd (fetchSession env_without_user (login_window, initial_auth_state))) = None"
    "user (snd (fetchSession env_without_user (login_window, initial_auth_state))) = None"
    using other_success_shape_sets_no_error [OF c d', of initial_auth_state]
    by (simp_all add: initial_auth_state_def)
  show ?thesis
    using a b c d 1 2 by (simp add: initial_auth_state_def)
qed

text \<open>
  Two inputs on which the claim as stated fails. A user that was in memory before such
  a resolution (a manual re-check after an earlier success) is still in memory after
  it. And a body with the success sentinel and no data envelope has no user in its
  payload, but reading the user from it throws inside the try block: the catch sets the
  generic error string.
\<close>

theorem other_success_shape_counterexample:
  "snd (axiosInstance env_no_session (browser ''/dashboard'') (session_request env_no_session))
     = Resolved 200 no_session
   \<and> session_status no_session \<noteq> ''SUCCESS''
   \<and> user (snd (fetchSession env_no_session (browser ''/dashboard'', signed_in))) = Some alice
   \<and> snd (axiosInstance env_without_data login_window (session_request env_without_data))
       = Resolved 200 success_without_data
   \<and> session_data success_without_data = None
   \<and> error (snd (fetchSession env_without_data (login_window, initial_auth_state)))
       = Some ''An unexpected error occurred''"
  by (simp add: no_session_reply without_data_reply fetchSession_def fetchSession_settled_def
        fetchSession_try_def fetchSession_catch_def no_session_def success_without_data_def
        signed_in_def)

section \<open>Lifetimes of the stored access token\<close>

lemma login_stores_access_token:
  assumes "axiosInstance env w (login_request env values p) = (w1, Resolved st (Some d))"
    and "accessToken d = Some t" and "t \<noteq> []" and "window w \<noteq> None"
  shows "cookies (fst (onSubmit env values (w, p))) ''accessToken''
           = Some \<lparr>cookie_value = t,
                   maxAge = (if rememberMe p then 2592000 else 86400), path = ''/'',
                   secure = Some (production env), sameSite = Some ''strict''\<rparr>"
proof -
  obtain q where q: "window w1 = Some q"
    using window_axiosInstance [of env w "login_request env values p"] assms(1,4) by auto
  show ?thesis
    using assms(1,2,3) q
    by (simp add: onSubmit_def onSubmit_try_def Let_def truthy_def template_def setCookie_def
          login_cookie_def written_def)
qed

lemma accepted_login:
  "axiosInstance env_login w (login_request env_login values p)
     = (w\<lparr>clock := Suc (clock w),
          trace := trace w @ [Dispatch (request_interceptor w (login_request env_login values p))]\<rparr>,
        Resolved 200 (Some \<lparr>accessToken = Some ''T1'', refreshToken = Some ''R1''\<rparr>))"
  by (simp add: axiosInstance.simps Let_def env_login_def accepting_def settle_def)

lemma window_onSubmit: "window (fst (onSubmit env values (w, p))) = window w"
proof -
  obtain w1 response where a: "axiosInstance env w (login_request env values p) = (w1, response)"
    by (cases "axiosInstance env w (login_request env values p)")
  have "window w1 = window w"
    using window_axiosInstance [of env w "login_request env values p"] a by simp
  then show ?thesis
    using a
    by (cases "window w")
       (auto simp: onSubmit_def onSubmit_try_def Let_def setCookie_def
          split: settled.splits option.splits)
qed

text \<open>
  Claim C7. In the browser, a login that is answered with an access token stores it
  with max-age 86400 when remember-me is off and 2592000 when it is on. The token stored
  by the refresh path has max-age 86400 in every browser world, so also in the one a
  login with remember-me on has left: the handler does not read the remember-me choice.
\<close>

theorem token_lifetimes:
  fixes env :: "token_payload option env" and env' :: "'d env"
  shows "(axiosInstance env w (login_request env values p) = (w1, Resolved st (Some d))
            \<and> accessToken d = Some t \<and> t \<noteq> [] \<and> window w \<noteq> None \<longrightarrow>
            map_option cookie_value (cookies (fst (onSubmit env values (w, p))) ''accessToken'') = Some t
          \<and> (\<not> rememberMe p \<longrightarrow>
               map_option maxAge (cookies (fst (onSubmit env values (w, p))) ''accessToken'')
                 = Some 86400)
          \<and> (rememberMe p \<longrightarrow>
               map_option maxAge (cookies (fst (onSubmit env values (w, p))) ''accessToken'')
                 = Some 2592000))
       \<and> (is_unauthorized r \<and> \<not> retry originalRequest
            \<and> snd (refresh_access_token env' w') = Inr token \<and> window w' \<noteq> None \<longrightarrow>
            map_option maxAge
              (cookies (fst (response_rejected env' w' (AxiosError originalRequest r))) ''accessToken'')
              = Some 86400)"
proof (intro conjI impI)
  assume a: "axiosInstance env w (login_request env values p) = (w1, Resolved st (Some d))
            \<and> accessToken d = Some t \<and> t \<noteq> [] \<and> window w \<noteq> None"
  note c = login_stores_access_token [of env w "values" p w1 st d t]
  show "map_option cookie_value (cookies (fst (onSubmit env values (w, p))) ''accessToken'') = Some t"
    using a c by simp
  show "map_option maxAge (cookies (fst (onSubmit env values (w, p))) ''accessToken'') = Some 86400"
    if "\<not> rememberMe p" using a c that by simp
  show "map_option maxAge (cookies (fst (onSubmit env values (w, p))) ''accessToken'') = Some 2592000"
    if "rememberMe p" using a c that by simp
next
  assume "is_unauthorized r \<and> \<not> retry originalRequest
            \<and> snd (refresh_access_token env' w') = Inr token \<and> window w' \<noteq> None"
  then have u: "is_unauthorized r" and n: "\<not> retry originalRequest"
    and t: "snd (refresh_access_token env' w') = Inr token" and b: "window w' \<noteq> None"
    by simp_all
  show "map_option maxAge
              (cookies (fst (response_rejected env' w' (AxiosError originalRequest r))) ''accessToken'')
              = Some 86400"
    using b by (auto simp: response_rejected_refreshed [OF u n t] refreshed_cookie_def)
qed

theorem token_lifetimes_witness:
  "\<not> rememberMe (login_form False) \<and> rememberMe (login_form True)
   \<and> window login_window \<noteq> None
   \<and> snd (axiosInstance env_login login_window (login_request env_login credentials (login_form False)))
       = Resolved 200 (Some \<lparr>accessToken = Some ''T1'', refreshToken = Some ''R1''\<rparr>)
   \<and> snd (axiosInstance env_login login_window (login_request env_login credentials (login_form True)))
       = Resolved 200 (Some \<lparr>accessToken = Some ''T1'', refreshToken = Some ''R1''\<rparr>)
   \<and> map_option maxAge
        (cookies (fst (onSubmit env_login credentials (login_window, login_form False))) ''accessToken'')
       = Some 86400
   \<and> map_option maxAge
        (cookies (fst (onSubmit env_login credentials (login_window, login_form True))) ''accessToken'')
       = Some 2592000
   \<and> is_unauthorized (Some unauthorized) \<and> \<not> retry sales_request
   \<and> snd (refresh_access_token env_issuing
             (fst (onSubmit env_login credentials (login_window, login_form True))))
       = Inr (Some ''T2'')
   \<and> window (fst (onSubmit env_login credentials (login_window, login_form True))) \<noteq> None
   \<and> map_option maxAge
        (cookies (fst (response_rejected env_issuing
                         (fst (onSubmit env_login credentials (login_window, login_form True)))
                         (AxiosError sales_request (Some unauthorized)))) ''accessToken'')
       = Some 86400"
proof -
  let ?wl = "fst (onSubmit env_login credentials (login_window, login_form True))"
  have h: "is_unauthorized (Some unauthorized)" "\<not> retry sales_request"
    by (simp_all add: is_unauthorized_def unauthorized_def sales_request_def)
  have f: "\<not> rememberMe (login_form False)" "rememberMe (login_form True)"
    by (simp_all add: login_form_def)
  have t: "accessToken \<lparr>accessToken = Some ''T1'', refreshToken = Some ''R1''\<rparr> = Some ''T1''"
    "''T1'' \<noteq> []"
    by simp_all
  have lw: "window login_window \<noteq> None"
    by (simp add: login_window_def)
  have ww: "window ?wl \<noteq> None"
    using lw by (simp add: window_onSubmit)
  show ?thesis
    using h f t lw ww
      token_lifetimes [of env_login login_window credentials "login_form False"
          "fst (axiosInstance env_login login_window (login_request env_login credentials (login_form False)))"
          200 "\<lparr>accessToken = Some ''T1'', refreshToken = Some ''R1''\<rparr>" "''T1''"
          "Some unauthorized" sales_request env_issuing ?wl "Some ''T2''"]
      token_lifetimes [of env_login login_window credentials "login_form True"
          "fst (axiosInstance env_login login_window (login_request env_login credentials (login_form True)))"
          200 "\<lparr>accessToken = Some ''T1'', refreshToken = Some ''R1''\<rparr>" "''T1''"
          "Some unauthorized" sales_request env_issuing ?wl "Some ''T2''"]
    by (simp add: accepted_login issuing_refresh)
qed

section \<open>Properties of the route guard\<close>

lemma matchesProtectedRoute_iff:
  "matchesProtectedRoute p \<longleftrightarrow> p = ''/dashboard'' \<or> prefix ''/dashboard/'' p"
  by (auto simp: matchesProtectedRoute_def protectedRoutes_def startsWith_def)

lemma callback_query:
  "path_and_query \<lparr>origin = a, pathname = ''/login'',
                    searchParams = [(''callbackUrl'', ''/dashboard'')]\<rparr>
     = ''/login?callbackUrl=%2Fdashboard''"
  by (simp add: path_and_query_def urlencode_def urlencode_byte_def hex_digit_def)

lemma under_dashboard_not_auth_route:
  "prefix ''/dashboard/'' p \<Longrightarrow> p \<notin> set authRoutes"
  by (auto simp: authRoutes_def)

text \<open>
  Claim C4, as the code has it. The guard takes the cookie for a credential only when
  its value is not empty (\<open>!!accessToken\<close>). A request for \<open>/dashboard\<close> without such
  a cookie is redirected to \<open>/login?callbackUrl=%2Fdashboard\<close>; a request for \<open>/login\<close>
  with one is redirected to \<open>/dashboard\<close>, and without one it passes; a request for a
  path under \<open>/dashboard/\<close> with one passes; and an exception in the try block gives a
  redirect to \<open>/login\<close>.
\<close>

theorem route_guard_decisions:
  "(nextUrl request = Inr u \<and> request_cookies request = Inr jar \<longrightarrow>
      (pathname u = ''/dashboard'' \<and> \<not> truthy (jar ''accessToken'') \<longrightarrow>
         (\<exists>target. middleware request = ([], Redirect target)
             \<and> origin target = origin (request_url request)
             \<and> path_and_query target = ''/login?callbackUrl=%2Fdashboard''))
    \<and> (pathname u = ''/login'' \<and> truthy (jar ''accessToken'') \<longrightarrow>
         (\<exists>target. middleware request = ([], Redirect target)
             \<and> origin target = origin (request_url request)
             \<and> path_and_query target = ''/dashboard''))
    \<and> (pathname u = ''/login'' \<and> \<not> truthy (jar ''accessToken'') \<longrightarrow>
         middleware request = ([], Next))
    \<and> (prefix ''/dashboard/'' (pathname u) \<and> truthy (jar ''accessToken'') \<longrightarrow>
         middleware request = ([], Next)))
   \<and> (middleware_try request = Inl e \<longrightarrow>
        (\<exists>target. snd (middleware request) = Redirect target
            \<and> origin target = origin (request_url request)
            \<and> path_and_query target = ''/login''))"
proof (intro conjI impI)
  assume r: "nextUrl request = Inr u \<and> request_cookies request = Inr jar"
  show "\<exists>target. middleware request = ([], Redirect target)
             \<and> origin target = origin (request_url request)
             \<and> path_and_query target = ''/login?callbackUrl=%2Fdashboard''"
    if "pathname u = ''/dashboard'' \<and> \<not> truthy (jar ''accessToken'')"
    using r that
    by (simp add: middleware_def middleware_try_def Let_def authRoutes_def
          matchesProtectedRoute_iff new_URL_def callback_query)
  show "\<exists>target. middleware request = ([], Redirect target)
             \<and> origin target = origin (request_url request)
             \<and> path_and_query target = ''/dashboard''"
    if "pathname u = ''/login'' \<and> truthy (jar ''accessToken'')"
    using r that
    by (simp add: middleware_def middleware_try_def Let_def authRoutes_def new_URL_def
          path_and_query_def)
  show "middleware request = ([], Next)"
    if "pathname u = ''/login'' \<and> \<not> truthy (jar ''accessToken'')"
    using r that
    by (simp add: middleware_def middleware_try_def Let_def authRoutes_def)
  show "middleware request = ([], Next)"
    if "prefix ''/dashboard/'' (pathname u) \<and> truthy (jar ''accessToken'')"
    using r that under_dashboard_not_auth_route [of "pathname u"]
    by (simp add: middleware_def middleware_try_def Let_def)
next
  assume "middleware_try request = Inl e"
  then show "\<exists>target. snd (middleware request) = Redirect target
            \<and> origin target = origin (request_url request)
            \<and> path_and_query target = ''/login''"
    by (simp add: middleware_def new_URL_def path_and_query_def)
qed

theorem route_guard_decisions_witness:
  "nextUrl (page_request ''/dashboard'' None) = Inr (page_url ''/dashboard'')
   \<and> request_cookies (page_request ''/dashboard'' None) = Inr Map.empty
   \<and> \<not> truthy (Map.empty ''accessToken'')
   \<and> (\<exists>target. middleware (page_request ''/dashboard'' None) = ([], Redirect target)
         \<and> path_and_query target = ''/login?callbackUrl=%2Fdashboard'')
   \<and> truthy ([''accessToken'' \<mapsto> ''T1''] ''accessToken'')
   \<and> (\<exists>target. middleware (page_request ''/login'' (Some ''T1'')) = ([], Redirect target)
         \<and> path_and_query target = ''/dashboard'')
   \<and> middleware (page_request ''/login'' None) = ([], Next)
   \<and> prefix ''/dashboard/'' ''/dashboard/pos/new-sale''
   \<and> middleware (page_request ''/dashboard/pos/new-sale'' (Some ''T1'')) = ([], Next)
   \<and> middleware_try broken_request = Inl (TypeError ''Invalid URL'')
   \<and> (\<exists>target. snd (middleware broken_request) = Redirect target
         \<and> path_and_query target = ''/login'')"
proof -
  let ?e = "TypeError ''Invalid URL''"
  have t: "\<not> truthy (Map.empty ''accessToken'')" "truthy ([''accessToken'' \<mapsto> ''T1''] ''accessToken'')"
    by (simp_all add: truthy_def)
  have b: "middleware_try broken_request = Inl ?e"
    by (simp add: middleware_try_def broken_request_def)
  have r: "nextUrl (page_request p c) = Inr (page_url p)"
    "request_cookies (page_request p c)
       = Inr (case c of None \<Rightarrow> Map.empty | Some v \<Rightarrow> [''accessToken'' \<mapsto> v])"
    "pathname (page_url p) = p" for p c
    by (simp_all add: page_request_def page_url_def)
  have 1: "\<exists>target. middleware (page_request ''/dashboard'' None) = ([], Redirect target)
         \<and> path_and_query target = ''/login?callbackUrl=%2Fdashboard''"
    using route_guard_decisions
            [of "page_request ''/dashboard'' None" "page_url ''/dashboard''" Map.empty ?e] t
    by (simp add: r) blast
  have 2: "\<exists>target. middleware (page_request ''/login'' (Some ''T1'')) = ([], Redirect target)
         \<and> path_and_query target = ''/dashboard''"
    using route_guard_decisions
            [of "page_request ''/login'' (Some ''T1'')" "page_url ''/login''"
                "[''accessToken'' \<mapsto> ''T1'']" ?e] t
    by (simp add: r) blast
  have 3: "middleware (page_request ''/login'' None) = ([], Next)"
    using route_guard_decisions
            [of "page_request ''/login'' None" "page_url ''/login''" Map.empty ?e] t
    by (simp add: r)
  have 4: "middleware (page_request ''/dashboard/pos/new-sale'' (Some ''T1'')) = ([], Next)"
    using route_guard_decisions
            [of "page_request ''/dashboard/pos/new-sale'' (Some ''T1'')"
                "page_url ''/dashboard/pos/new-sale''" "[''accessToken'' \<mapsto> ''T1'']" ?e] t
    by (simp add: r)
  have 5: "\<exists>target. snd (middleware broken_request) = Redirect target
         \<and> path_and_query target = ''/login''"
    using route_guard_decisions [of broken_request "page_url []" Map.empty ?e] b
    by blast
  show ?thesis
    using t b 1 2 3 4 5 by (simp add: r)
qed

text \<open>
  A cookie that is present with the empty value counts as absent: with it a request for
  \<open>/login\<close> passes instead of being redirected to the dashboard, and a request for a
  path under \<open>/dashboard/\<close> is redirected to the login page instead of passing.
\<close>

theorem route_guard_empty_cookie_counterexample:
  "request_cookies (page_request ''/login'' (Some [])) = Inr [''accessToken'' \<mapsto> []]
   \<and> middleware (page_request ''/login'' (Some [])) = ([], Next)
   \<and> request_cookies (page_request ''/dashboard/pos/new-sale'' (Some []))
       = Inr [''accessToken'' \<mapsto> []]
   \<and> middleware (page_request ''/dashboard/pos/new-sale'' (Some []))
       = ([], Redirect \<lparr>origin = ''http://localhost:3000'', pathname = ''/login'',
                         searchParams = [(''callbackUrl'', ''/dashboard/pos/new-sale'')]\<rparr>)"
  by (simp add: page_request_def page_url_def middleware_def middleware_try_def Let_def
        truthy_def authRoutes_def matchesProtectedRoute_iff new_URL_def)

end
